theory Spec2Isabelle
  imports Main "HOL-Library.Word" "HOL-Library.Code_Target_Nat"
begin

section \<open>Bytes and hexadecimal text\<close>

text \<open>
  Both source files (\<^verbatim>\<open>src/attestation-scanner.js\<close> and \<^verbatim>\<open>src/unnamed/part_000\<close>)
  receive the \<^verbatim>\<open>bytes\<close> fields of a decoded call as hexadecimal text: the characters
  \<^verbatim>\<open>0x\<close> followed by two lower-case digits per byte. A JavaScript string is held here
  as a \<open>string\<close> of its UTF-8 bytes; every string the code measures or slices
  (\<^verbatim>\<open>subjectBytes.length === 66\<close>, \<^verbatim>\<open>slice(-40)\<close>) is ASCII, where bytes and
  UTF-16 units coincide.
\<close>

type_synonym byte = "8 word"

definition hexdigit :: "nat \<Rightarrow> char" where
  "hexdigit n = ''0123456789abcdef'' ! n"

definition unhexdigit :: "char \<Rightarrow> nat option" where
  "unhexdigit c =
     (let n = (of_char c :: nat) in
      if 48 \<le> n \<and> n \<le> 57 then Some (n - 48)
      else if 97 \<le> n \<and> n \<le> 102 then Some (n - 87)
      else if 65 \<le> n \<and> n \<le> 70 then Some (n - 55)
      else None)"

fun hexdigits :: "byte list \<Rightarrow> string" where
  "hexdigits [] = []"
| "hexdigits (b # bs) = hexdigit (unat b div 16) # hexdigit (unat b mod 16) # hexdigits bs"

definition hexlify :: "byte list \<Rightarrow> string" where
  "hexlify bs = ''0x'' @ hexdigits bs"

fun unhexdigits :: "string \<Rightarrow> byte list option" where
  "unhexdigits [] = Some []"
| "unhexdigits [c] = None"
| "unhexdigits (a # b # cs) =
     (case unhexdigit a of None \<Rightarrow> None
      | Some h \<Rightarrow> (case unhexdigit b of None \<Rightarrow> None
      | Some l \<Rightarrow> (case unhexdigits cs of None \<Rightarrow> None
      | Some bs \<Rightarrow> Some (of_nat (16 * h + l) # bs))))"

definition arrayify :: "string \<Rightarrow> byte list option" where
  "arrayify s = (if take 2 s = ''0x'' then unhexdigits (drop 2 s) else None)"

section \<open>Subject normalisation\<close>

datatype error = InvalidAddress | DecodeError | TypeError | RangeError | Failure string

type_synonym address = "byte list"

definition toUpperCase_char :: "char \<Rightarrow> char" where
  "toUpperCase_char c =
     (let n = (of_char c :: nat) in if 97 \<le> n \<and> n \<le> 122 then char_of (n - 32) else c)"

definition toLowerCase_char :: "char \<Rightarrow> char" where
  "toLowerCase_char c =
     (let n = (of_char c :: nat) in if 65 \<le> n \<and> n \<le> 90 then char_of (n + 32) else c)"

text \<open>
  \<^verbatim>\<open>String.prototype.toLowerCase\<close> on ASCII text (addresses are hexadecimal text);
  bytes of non-ASCII characters are left as they are.
\<close>

definition toLowerCase :: "string \<Rightarrow> string" where
  "toLowerCase s = map toLowerCase_char s"

text \<open>
  The checksummed (mixed-case) text of a 20-byte address: its lower-case hexadecimal
  digits, where digit \<open>i\<close> is written in upper case when the hash of the address says so.
  The hash (Keccak-256 in the library) is the parameter \<open>eip55\<close>: \<open>eip55 a i\<close> tells
  whether digit \<open>i\<close> of address \<open>a\<close> is raised. Nothing is assumed about it.
\<close>

fun raise_digits :: "(nat \<Rightarrow> bool) \<Rightarrow> nat \<Rightarrow> string \<Rightarrow> string" where
  "raise_digits up i [] = []"
| "raise_digits up i (c # cs) =
     (if up i then toUpperCase_char c else c) # raise_digits up (Suc i) cs"

definition getChecksumAddress :: "(address \<Rightarrow> nat \<Rightarrow> bool) \<Rightarrow> address \<Rightarrow> string" where
  "getChecksumAddress eip55 a = ''0x'' @ raise_digits (eip55 a) 0 (hexdigits a)"

text \<open>
  Modelled from the spec: \<^verbatim>\<open>ethers.utils.getAddress\<close> is library code that is not under
  \<^verbatim>\<open>src/\<close>. Spec 3 and 4.3: a subject is an address when it is exactly 20 bytes, any
  other length is a normalisation failure, and the output is the checksummed mixed-case
  form. Every argument the two source files pass is the hexadecimal text of a
  \<^verbatim>\<open>bytes\<close> value (\<^verbatim>\<open>0x\<close> and lower-case digits).
\<close>

definition getAddress :: "(address \<Rightarrow> nat \<Rightarrow> bool) \<Rightarrow> string \<Rightarrow> error + string" where
  "getAddress eip55 s =
     (case arrayify s of
        None \<Rightarrow> Inl InvalidAddress
      | Some bs \<Rightarrow> if length bs = 20 then Inr (getChecksumAddress eip55 bs)
                   else Inl InvalidAddress)"

text \<open>\<^verbatim>\<open>s.slice(-n)\<close>: the last \<open>n\<close> characters, the whole string when it is shorter.\<close>

definition slice_neg :: "nat \<Rightarrow> string \<Rightarrow> string" where
  "slice_neg n s = drop (length s - n) s"

text \<open>\<^verbatim>\<open>parseSubjectAsAddress\<close> of \<^verbatim>\<open>src/unnamed/part_000\<close>, lines 69-77.\<close>

definition parseSubjectAsAddress ::
  "(address \<Rightarrow> nat \<Rightarrow> bool) \<Rightarrow> string \<Rightarrow> error + string" where
  "parseSubjectAsAddress eip55 subjectBytes =
     (if length subjectBytes = 66
      then getAddress eip55 (''0x'' @ slice_neg 40 subjectBytes)
      else getAddress eip55 subjectBytes)"

section \<open>ABI decoding of the payload\<close>

text \<open>
  Modelled from the spec: the ABI coders (\<^verbatim>\<open>decodeAbiParameters\<close> of viem in
  \<^verbatim>\<open>src/attestation-scanner.js\<close>, \<^verbatim>\<open>ethers.utils.defaultAbiCoder.decode\<close> in
  \<^verbatim>\<open>src/unnamed/part_000\<close>) are library code that is not under \<^verbatim>\<open>src/\<close>. Spec 4.1 and
  4.2: the canonical head/tail layout of 32-byte words; a boolean occupies one word
  (nonzero is true); an address occupies the low 20 bytes of one word; a string is
  length-prefixed UTF-8 bytes referenced through an offset in the head of the enclosing
  tuple; wrong word count, invalid UTF-8 and a truncated tail are decode failures.
  A parameter of dynamic type (a string, or a tuple that holds one) is itself referenced
  through an offset word.
\<close>

datatype abi_type = TBool | TString | TAddress | TTuple "abi_type list"

datatype abi_value = VBool bool | VString string | VAddress address | VTuple "abi_value list"

fun dynamic :: "abi_type \<Rightarrow> bool" where
  "dynamic TBool = False"
| "dynamic TString = True"
| "dynamic TAddress = False"
| "dynamic (TTuple ts) = list_ex dynamic ts"

fun head_size :: "abi_type \<Rightarrow> nat" where
  "head_size (TTuple ts) = (if list_ex dynamic ts then 32 else sum_list (map head_size ts))"
| "head_size t = 32"

text \<open>Big-endian numbers: the value of a byte string, and the \<open>k\<close>-byte text of a number.\<close>

definition be_nat :: "byte list \<Rightarrow> nat" where
  "be_nat bs = foldl (\<lambda>a b. 256 * a + unat b) 0 bs"

fun be_bytes :: "nat \<Rightarrow> nat \<Rightarrow> byte list" where
  "be_bytes 0 n = []"
| "be_bytes (Suc k) n = be_bytes k (n div 256) @ [of_nat (n mod 256)]"

definition word32 :: "nat \<Rightarrow> byte list" where
  "word32 n = be_bytes 32 n"

definition read_word :: "byte list \<Rightarrow> nat \<Rightarrow> nat option" where
  "read_word d p = (if p + 32 \<le> length d then Some (be_nat (take 32 (drop p d))) else None)"

text \<open>Well-formed UTF-8: shortest form, no surrogates, at most U+10FFFF.\<close>

definition cont :: "byte \<Rightarrow> bool" where
  "cont c = (0x80 \<le> c \<and> c \<le> 0xBF)"

fun utf8_valid :: "byte list \<Rightarrow> bool" where
  "utf8_valid [] = True"
| "utf8_valid (b # bs) =
     (if b < 0x80 then utf8_valid bs
      else if 0xC2 \<le> b \<and> b \<le> 0xDF then
        (case bs of c1 # r \<Rightarrow> cont c1 \<and> utf8_valid r | _ \<Rightarrow> False)
      else if 0xE0 \<le> b \<and> b \<le> 0xEF then
        (case bs of c1 # c2 # r \<Rightarrow>
           (if b = 0xE0 then 0xA0 \<le> c1 \<and> c1 \<le> 0xBF
            else if b = 0xED then 0x80 \<le> c1 \<and> c1 \<le> 0x9F
            else cont c1) \<and> cont c2 \<and> utf8_valid r
         | _ \<Rightarrow> False)
      else if 0xF0 \<le> b \<and> b \<le> 0xF4 then
        (case bs of c1 # c2 # c3 # r \<Rightarrow>
           (if b = 0xF0 then 0x90 \<le> c1 \<and> c1 \<le> 0xBF
            else if b = 0xF4 then 0x80 \<le> c1 \<and> c1 \<le> 0x8F
            else cont c1) \<and> cont c2 \<and> cont c3 \<and> utf8_valid r
         | _ \<Rightarrow> False)
      else False)"

definition bytes_to_string :: "byte list \<Rightarrow> string" where
  "bytes_to_string bs = map (\<lambda>b. char_of (unat b)) bs"

definition string_to_bytes :: "string \<Rightarrow> byte list" where
  "string_to_bytes s = map (\<lambda>c. of_nat (of_char c)) s"

text \<open>
  \<open>decode_value t d p\<close> decodes a value of type \<open>t\<close> whose encoding starts at byte \<open>p\<close>
  of the region \<open>d\<close>; \<open>decode_values ts d p\<close> decodes a sequence whose head starts at
  byte \<open>p\<close> of \<open>d\<close>, the offsets of its dynamic members counting from the start of \<open>d\<close>.
\<close>

fun decode_value :: "abi_type \<Rightarrow> byte list \<Rightarrow> nat \<Rightarrow> abi_value option"
and decode_values :: "abi_type list \<Rightarrow> byte list \<Rightarrow> nat \<Rightarrow> abi_value list option" where
  "decode_value TBool d p = map_option (\<lambda>w. VBool (w \<noteq> 0)) (read_word d p)"
| "decode_value TAddress d p =
     (if p + 32 \<le> length d then Some (VAddress (take 20 (drop (p + 12) d))) else None)"
| "decode_value TString d p =
     (case read_word d p of
        None \<Rightarrow> None
      | Some n \<Rightarrow>
          if p + 32 + n \<le> length d \<and> utf8_valid (take n (drop (p + 32) d))
          then Some (VString (bytes_to_string (take n (drop (p + 32) d))))
          else None)"
| "decode_value (TTuple ts) d p = map_option VTuple (decode_values ts (drop p d) 0)"
| "decode_values [] d p = Some []"
| "decode_values (t # ts) d p =
     (case (if dynamic t
            then (case read_word d p of None \<Rightarrow> None | Some off \<Rightarrow> decode_value t d off)
            else decode_value t d p) of
        None \<Rightarrow> None
      | Some v \<Rightarrow> (case decode_values ts d (p + head_size t) of
                     None \<Rightarrow> None
                   | Some vs \<Rightarrow> Some (v # vs)))"

text \<open>The library entry point: hexadecimal text in, the decoded values or a thrown error out.\<close>

definition abi_decode :: "abi_type list \<Rightarrow> string \<Rightarrow> error + abi_value list" where
  "abi_decode params data =
     (case arrayify data of
        None \<Rightarrow> Inl DecodeError
      | Some bs \<Rightarrow> (case decode_values params bs 0 of
                     None \<Rightarrow> Inl DecodeError
                   | Some vs \<Rightarrow> Inr vs))"

text \<open>
  The encoder of the same layout, used to state the round trip. The encoding of a
  sequence is the heads of its members followed by the tails of the dynamic ones.
\<close>

fun dynamic_value :: "abi_value \<Rightarrow> bool" where
  "dynamic_value (VBool b) = False"
| "dynamic_value (VString s) = True"
| "dynamic_value (VAddress a) = False"
| "dynamic_value (VTuple vs) = list_ex dynamic_value vs"

definition pad32 :: "byte list \<Rightarrow> byte list" where
  "pad32 bs = bs @ replicate ((32 - length bs mod 32) mod 32) 0"

fun heads_tails :: "(bool \<times> byte list) list \<Rightarrow> nat \<Rightarrow> byte list \<times> byte list" where
  "heads_tails [] off = ([], [])"
| "heads_tails ((dyn, e) # xs) off =
     (let (h, t) = heads_tails xs (if dyn then off + length e else off)
      in if dyn then (word32 off @ h, e @ t) else (e @ h, t))"

definition encode_seq :: "(bool \<times> byte list) list \<Rightarrow> byte list" where
  "encode_seq xs =
     (let (h, t) = heads_tails xs (sum_list (map (\<lambda>(dyn, e). if dyn then 32 else length e) xs))
      in h @ t)"

fun encode_value :: "abi_value \<Rightarrow> byte list" where
  "encode_value (VBool b) = word32 (if b then 1 else 0)"
| "encode_value (VAddress a) = replicate 12 0 @ a"
| "encode_value (VString s) = word32 (length (string_to_bytes s)) @ pad32 (string_to_bytes s)"
| "encode_value (VTuple vs) = encode_seq (map (\<lambda>v. (dynamic_value v, encode_value v)) vs)"

definition abi_encode :: "abi_value list \<Rightarrow> byte list" where
  "abi_encode vs = encode_seq (map (\<lambda>v. (dynamic_value v, encode_value v)) vs)"

section \<open>The payload decoders\<close>

record decoded_payload =
  isPositive :: bool
  articlePage :: string
  submitter :: string

text \<open>
  \<^verbatim>\<open>attestationDataSchema\<close> of \<^verbatim>\<open>src/attestation-scanner.js\<close>, line 49, as
  \<^verbatim>\<open>parseAbiParameters\<close> reads it: one parameter, a tuple of three named members.
\<close>

definition attestationDataSchema :: "abi_type list" where
  "attestationDataSchema = [TTuple [TBool, TString, TAddress]]"

text \<open>
  \<^verbatim>\<open>decodeAttestationData\<close> of \<^verbatim>\<open>src/attestation-scanner.js\<close>, lines 52-83. \<open>Inl\<close> is a
  thrown error and \<open>Inr None\<close> the returned \<^verbatim>\<open>null\<close>. The defaults \<^verbatim>\<open>?? "N/A"\<close> apply
  to a missing member only, which a decoded tuple of this schema never has.
\<close>

definition decodeAttestationData_scanner ::
  "(address \<Rightarrow> nat \<Rightarrow> bool) \<Rightarrow> string \<Rightarrow> error + decoded_payload option" where
  "decodeAttestationData_scanner eip55 encodedData =
     (if encodedData = [] \<or> encodedData = ''0x'' then Inr None
      else (case abi_decode attestationDataSchema encodedData of
              Inl e \<Rightarrow> Inr None
            | Inr decodedArray \<Rightarrow>
                (case decodedArray of
                   VTuple [VBool b, VString s, VAddress a] # rest \<Rightarrow>
                     Inr (Some \<lparr>isPositive = b, articlePage = s,
                                submitter = getChecksumAddress eip55 a\<rparr>)
                 | _ \<Rightarrow> Inr None)))"

text \<open>\<^verbatim>\<open>decodeAttestationData\<close> of \<^verbatim>\<open>src/unnamed/part_000\<close>, lines 47-66.\<close>

definition decodeAttestationData_part000 ::
  "(address \<Rightarrow> nat \<Rightarrow> bool) \<Rightarrow> string \<Rightarrow> error + decoded_payload option" where
  "decodeAttestationData_part000 eip55 encodedData =
     (if encodedData = [] \<or> encodedData = ''0x'' then Inr None
      else (case abi_decode [TBool, TString, TAddress] encodedData of
              Inl e \<Rightarrow> Inr None
            | Inr decoded \<Rightarrow>
                (case decoded of
                   [VBool b, VString s, VAddress a] \<Rightarrow>
                     Inr (Some \<lparr>isPositive = b, articlePage = s,
                                submitter = getChecksumAddress eip55 a\<rparr>)
                 | _ \<Rightarrow> Inr None)))"

section \<open>JavaScript values written to the files\<close>

text \<open>
  A JavaScript number that holds an integer, or \<^verbatim>\<open>NaN\<close>. Block numbers and timestamps
  are far below \<open>2^53\<close>, where a double holds every integer exactly; rounding above
  that bound is outside this model.
\<close>

datatype number = NaN | Num int

abbreviation LF :: char where "LF \<equiv> CHR 0x0A"
abbreviation DQUOTE :: char where "DQUOTE \<equiv> CHR 0x22"
abbreviation BACKSLASH :: char where "BACKSLASH \<equiv> CHR 0x5C"

fun dec :: "nat \<Rightarrow> string" where
  "dec n = (if n < 10 then [hexdigit n] else dec (n div 10) @ [hexdigit (n mod 10)])"

declare dec.simps [simp del]

definition padStart :: "nat \<Rightarrow> string \<Rightarrow> string" where
  "padStart k s = replicate (k - length s) CHR ''0'' @ s"

text \<open>\<^verbatim>\<open>String(n)\<close>, as a template literal interpolates a number.\<close>

fun String_number :: "number \<Rightarrow> string" where
  "String_number NaN = ''NaN''"
| "String_number (Num n) = (if n < 0 then ''-'' @ dec (nat (- n)) else dec (nat n))"

definition String_bool :: "bool \<Rightarrow> string" where
  "String_bool b = (if b then ''true'' else ''false'')"

text \<open>
  \<^verbatim>\<open>parseInt(s)\<close> without a radix: leading white space, a sign, a \<^verbatim>\<open>0x\<close> prefix, then the
  longest run of digits; \<^verbatim>\<open>NaN\<close> when there is none. White space is the ASCII part of
  the language's definition.
\<close>

definition is_space :: "char \<Rightarrow> bool" where
  "is_space c = (let n = (of_char c :: nat) in (9 \<le> n \<and> n \<le> 13) \<or> n = 32)"

definition digit_of :: "nat \<Rightarrow> char \<Rightarrow> nat option" where
  "digit_of radix c =
     (case unhexdigit c of None \<Rightarrow> None | Some d \<Rightarrow> if d < radix then Some d else None)"

definition digits_value :: "nat \<Rightarrow> string \<Rightarrow> nat" where
  "digits_value radix z =
     foldl (\<lambda>a c. radix * a + (case digit_of radix c of None \<Rightarrow> 0 | Some d \<Rightarrow> d)) 0 z"

definition parseInt :: "string \<Rightarrow> number" where
  "parseInt s =
     (let s0 = dropWhile is_space s;
          neg = (take 1 s0 = ''-'');
          s1 = (if take 1 s0 = ''-'' \<or> take 1 s0 = ''+'' then drop 1 s0 else s0);
          hex = (take 2 s1 = ''0x'' \<or> take 2 s1 = ''0X'');
          radix = (if hex then 16 else 10);
          s2 = (if hex then drop 2 s1 else s1);
          z = takeWhile (\<lambda>c. digit_of radix c \<noteq> None) s2
      in if z = [] then NaN
         else Num ((if neg then - 1 else 1) * int (digits_value radix z)))"

text \<open>
  \<^verbatim>\<open>Date.prototype.toISOString\<close> of the time value \<open>ms\<close> (milliseconds since the epoch):
  a \<^verbatim>\<open>RangeError\<close> outside the range of time values, else the calendar date of the
  proleptic Gregorian calendar, the time of day and \<^verbatim>\<open>Z\<close>.
\<close>

definition civil_from_days :: "int \<Rightarrow> int \<times> nat \<times> nat" where
  "civil_from_days z0 =
     (let z = z0 + 719468;
          era = z div 146097;
          doe = z mod 146097;
          yoe = (doe - doe div 1460 + doe div 36524 - doe div 146096) div 365;
          doy = doe - (365 * yoe + yoe div 4 - yoe div 100);
          mp = (5 * doy + 2) div 153;
          d = doy - (153 * mp + 2) div 5 + 1;
          m = (if mp < 10 then mp + 3 else mp - 9);
          y = yoe + era * 400 + (if m \<le> 2 then 1 else 0)
      in (y, nat m, nat d))"

definition year_text :: "int \<Rightarrow> string" where
  "year_text y =
     (if 0 \<le> y \<and> y \<le> 9999 then padStart 4 (dec (nat y))
      else (if y < 0 then ''-'' else ''+'') @ padStart 6 (dec (nat \<bar>y\<bar>)))"

definition toISOString :: "number \<Rightarrow> error + string" where
  "toISOString t =
     (case t of
        NaN \<Rightarrow> Inl RangeError
      | Num ms \<Rightarrow>
          if ms < - 8640000000000000 \<or> 8640000000000000 < ms then Inl RangeError
          else
            (let (y, m, d) = civil_from_days (ms div 86400000);
                 r = nat (ms mod 86400000)
             in Inr (year_text y @ ''-'' @ padStart 2 (dec m) @ ''-'' @ padStart 2 (dec d)
                     @ ''T'' @ padStart 2 (dec (r div 3600000))
                     @ '':'' @ padStart 2 (dec (r div 60000 mod 60))
                     @ '':'' @ padStart 2 (dec (r div 1000 mod 60))
                     @ ''.'' @ padStart 3 (dec (r mod 1000)) @ ''Z'')))"

fun times_1000 :: "number \<Rightarrow> number" where
  "times_1000 NaN = NaN"
| "times_1000 (Num n) = Num (n * 1000)"

text \<open>
  \<^verbatim>\<open>JSON.stringify(value, null, 2)\<close> of an object whose members are strings, numbers and
  booleans: one member per line, indented by two spaces. A string is quoted with the
  escapes of the language definition; \<^verbatim>\<open>NaN\<close> is written \<^verbatim>\<open>null\<close>.
\<close>

datatype json_value = JString string | JNumber number | JBool bool

definition json_escape :: "char \<Rightarrow> string" where
  "json_escape c =
     (let n = (of_char c :: nat) in
      if c = DQUOTE then [BACKSLASH, DQUOTE]
      else if c = BACKSLASH then [BACKSLASH, BACKSLASH]
      else if n = 8 then [BACKSLASH, CHR ''b'']
      else if n = 12 then [BACKSLASH, CHR ''f'']
      else if n = 10 then [BACKSLASH, CHR ''n'']
      else if n = 13 then [BACKSLASH, CHR ''r'']
      else if n = 9 then [BACKSLASH, CHR ''t'']
      else if n < 32 then [BACKSLASH, CHR ''u'', CHR ''0'', CHR ''0'',
                           hexdigit (n div 16), hexdigit (n mod 16)]
      else [c])"

definition json_quote :: "string \<Rightarrow> string" where
  "json_quote s = [DQUOTE] @ concat (map json_escape s) @ [DQUOTE]"

fun json_text :: "json_value \<Rightarrow> string" where
  "json_text (JString s) = json_quote s"
| "json_text (JNumber NaN) = ''null''"
| "json_text (JNumber (Num n)) = String_number (Num n)"
| "json_text (JBool b) = String_bool b"

definition json_member :: "string \<times> json_value \<Rightarrow> string" where
  "json_member kv = ''  '' @ json_quote (fst kv) @ '': '' @ json_text (snd kv)"

fun json_members :: "(string \<times> json_value) list \<Rightarrow> string" where
  "json_members [] = []"
| "json_members [kv] = json_member kv @ [LF]"
| "json_members (kv # kvs) = json_member kv @ '','' @ [LF] @ json_members kvs"

definition JSON_stringify :: "(string \<times> json_value) list \<Rightarrow> string" where
  "JSON_stringify props =
     (if props = [] then ''{}'' else ''{'' @ [LF] @ json_members props @ ''}'')"

section \<open>The world of a run\<close>

text \<open>
  The files, the file operations in the order they were made, the calls to the outside
  and the console lines (without their pictographs and object dumps) in order, and the
  number of times the clock has been read.
\<close>

datatype fs_op = WriteFile string string | AppendFile string string

datatype event =
    HttpGet
  | RpcGetTransaction string
  | RpcGetBlock number
  | AbiParseTransaction string
  | ConsoleWarn string
  | ConsoleError string
  | ConsoleLog string

record world =
  files :: "string \<Rightarrow> string"
  fs_log :: "fs_op list"
  trace :: "event list"
  date_reads :: nat

definition writeFileSync :: "string \<Rightarrow> string \<Rightarrow> world \<Rightarrow> world" where
  "writeFileSync path content w =
     w\<lparr>files := (files w)(path := content), fs_log := fs_log w @ [WriteFile path content]\<rparr>"

definition appendFileSync :: "string \<Rightarrow> string \<Rightarrow> world \<Rightarrow> world" where
  "appendFileSync path content w =
     w\<lparr>files := (files w)(path := files w path @ content),
       fs_log := fs_log w @ [AppendFile path content]\<rparr>"

definition emit :: "event \<Rightarrow> world \<Rightarrow> world" where
  "emit e w = w\<lparr>trace := trace w @ [e]\<rparr>"

definition JSON_FILE :: string where
  "JSON_FILE = ''./attestations.json''"

definition CSV_FILE :: string where
  "CSV_FILE = ''./attestations.csv''"

text \<open>
  What the outside gives: the configured contract address, the chain provider, the
  explorer, the call decoder of the contract interface, the wall clock (reading number
  \<open>k\<close> of the run returns \<open>clock k\<close>) and the hash behind the address checksum.
\<close>

record tx_response =
  tx_to :: "string option"
  tx_data :: string

record block_response =
  block_timestamp :: number

record raw_payload =
  schemaId :: string
  expirationDate :: nat
  subject :: string
  attestationData :: string

record tx_description =
  args :: "(raw_payload option \<times> string list) option"

record explorer_tx =
  ex_hash :: string
  ex_to :: "string option"
  ex_blockNumber :: string

record explorer_response =
  status :: string
  message :: string
  result :: "explorer_tx list"

record env =
  env_CONTRACT_ADDRESS :: string
  getTransaction :: "string \<Rightarrow> error + tx_response option"
  getBlock :: "number \<Rightarrow> error + block_response option"
  parseTransaction :: "string \<Rightarrow> error + tx_description option"
  axios_get :: "error + explorer_response"
  clock :: "nat \<Rightarrow> int"
  env_eip55 :: "address \<Rightarrow> nat \<Rightarrow> bool"

definition CONTRACT_ADDRESS :: "env \<Rightarrow> string" where
  "CONTRACT_ADDRESS env = toLowerCase (env_CONTRACT_ADDRESS env)"

text \<open>\<^verbatim>\<open>new Date()\<close>: the next reading of the clock.\<close>

definition new_Date :: "env \<Rightarrow> world \<Rightarrow> number \<times> world" where
  "new_Date env w = (Num (clock env (date_reads w)), w\<lparr>date_reads := Suc (date_reads w)\<rparr>)"

section \<open>The sink\<close>

text \<open>The record of \<^verbatim>\<open>src/attestation-scanner.js\<close>, lines 173-182.\<close>

record attestation_scanner =
  a_txHash :: string
  a_blockNumber :: number
  a_schemaId :: string
  a_subject :: string
  a_isPositive :: bool
  a_articlePage :: string
  a_submitter :: string
  a_timestamp :: string

text \<open>The record of \<^verbatim>\<open>src/unnamed/part_000\<close>, lines 155-163.\<close>

record attestation_part000 =
  b_txHash :: string
  b_blockNumber :: number
  b_from :: string
  b_timestamp :: string
  b_articlePage :: string
  b_positiveFeedback :: number
  b_negativeFeedback :: number

definition csv_header_scanner :: string where
  "csv_header_scanner =
     ''txHash,blockNumber,schemaId,subject,isPositive,articlePage,submitter,timestamp''"

definition csv_header_part000 :: string where
  "csv_header_part000 =
     ''txHash,blockNumber,from,timestamp,articlePage,positiveFeedback,negativeFeedback''"

text \<open>\<^verbatim>\<open>initializeFiles\<close>: lines 89-92 of the scanner, lines 80-87 of part 000.\<close>

definition initializeFiles_scanner :: "world \<Rightarrow> world" where
  "initializeFiles_scanner w =
     writeFileSync CSV_FILE (csv_header_scanner @ [LF]) (writeFileSync JSON_FILE [] w)"

definition initializeFiles_part000 :: "world \<Rightarrow> world" where
  "initializeFiles_part000 w =
     writeFileSync CSV_FILE (csv_header_part000 @ [LF]) (writeFileSync JSON_FILE [] w)"

text \<open>\<^verbatim>\<open>saveToJSON\<close>: lines 95-99 of the scanner, lines 90-93 of part 000.\<close>

definition json_of_scanner :: "attestation_scanner \<Rightarrow> (string \<times> json_value) list" where
  "json_of_scanner a =
     [(''txHash'', JString (a_txHash a)),
      (''blockNumber'', JNumber (a_blockNumber a)),
      (''schemaId'', JString (a_schemaId a)),
      (''subject'', JString (a_subject a)),
      (''isPositive'', JBool (a_isPositive a)),
      (''articlePage'', JString (a_articlePage a)),
      (''submitter'', JString (a_submitter a)),
      (''timestamp'', JString (a_timestamp a))]"

definition json_of_part000 :: "attestation_part000 \<Rightarrow> (string \<times> json_value) list" where
  "json_of_part000 a =
     [(''txHash'', JString (b_txHash a)),
      (''blockNumber'', JNumber (b_blockNumber a)),
      (''from'', JString (b_from a)),
      (''timestamp'', JString (b_timestamp a)),
      (''articlePage'', JString (b_articlePage a)),
      (''positiveFeedback'', JNumber (b_positiveFeedback a)),
      (''negativeFeedback'', JNumber (b_negativeFeedback a))]"

definition saveToJSON_scanner :: "attestation_scanner \<Rightarrow> world \<Rightarrow> world" where
  "saveToJSON_scanner attestation w =
     appendFileSync JSON_FILE (JSON_stringify (json_of_scanner attestation) @ [LF]) w"

definition saveToJSON_part000 :: "attestation_part000 \<Rightarrow> world \<Rightarrow> world" where
  "saveToJSON_part000 attestation w =
     appendFileSync JSON_FILE (JSON_stringify (json_of_part000 attestation) @ [LF]) w"

text \<open>\<^verbatim>\<open>saveToCSV\<close>: lines 103-114 of the scanner, lines 96-102 of part 000.\<close>

definition csvLine_scanner :: "attestation_scanner \<Rightarrow> string" where
  "csvLine_scanner a =
     a_txHash a @ '','' @ String_number (a_blockNumber a) @ '','' @ a_schemaId a @ '',''
     @ a_subject a @ '','' @ String_bool (a_isPositive a) @ '','' @ a_articlePage a @ '',''
     @ a_submitter a @ '','' @ a_timestamp a"

definition csvLine_part000 :: "attestation_part000 \<Rightarrow> string" where
  "csvLine_part000 a =
     b_txHash a @ '','' @ String_number (b_blockNumber a) @ '','' @ b_from a @ '',''
     @ b_timestamp a @ '','' @ b_articlePage a @ '',''
     @ String_number (b_positiveFeedback a) @ '','' @ String_number (b_negativeFeedback a)"

definition saveToCSV_scanner :: "attestation_scanner \<Rightarrow> world \<Rightarrow> world" where
  "saveToCSV_scanner attestation w =
     appendFileSync CSV_FILE (csvLine_scanner attestation @ [LF]) w"

definition saveToCSV_part000 :: "attestation_part000 \<Rightarrow> world \<Rightarrow> world" where
  "saveToCSV_part000 attestation w =
     appendFileSync CSV_FILE (csvLine_part000 attestation @ [LF]) w"

text \<open>Appending one record to both files, in the order of the source.\<close>

definition persist_scanner :: "attestation_scanner \<Rightarrow> world \<Rightarrow> world" where
  "persist_scanner a w = saveToCSV_scanner a (saveToJSON_scanner a w)"

definition persist_part000 :: "attestation_part000 \<Rightarrow> world \<Rightarrow> world" where
  "persist_part000 a w = saveToCSV_part000 a (saveToJSON_part000 a w)"

text \<open>
  Reading the artifacts back: the rows of a text are its lines, and an entry of the
  structured artifact ends with a line that holds the closing brace alone.
\<close>

fun rows_from :: "string \<Rightarrow> string \<Rightarrow> string list" where
  "rows_from cur [] = (if cur = [] then [] else [cur])"
| "rows_from cur (c # cs) =
     (if c = LF then cur # rows_from [] cs else rows_from (cur @ [c]) cs)"

definition rows :: "string \<Rightarrow> string list" where
  "rows text = rows_from [] text"

definition json_entries :: "string \<Rightarrow> nat" where
  "json_entries text = length (filter (\<lambda>l. l = ''}'') (rows text))"

section \<open>Decoding one transaction\<close>

text \<open>
  \<^verbatim>\<open>decodeAttestation\<close> of \<^verbatim>\<open>src/attestation-scanner.js\<close>, lines 120-192, in two parts:
  \<open>assemble_scanner\<close> is the body of the \<^verbatim>\<open>try\<close> up to the record literal (lines
  122-182), with \<open>None\<close> for every \<^verbatim>\<open>return\<close> and every caught error;
  \<open>decodeAttestation_scanner\<close> then appends the record (lines 184-187). The trace holds
  the warnings and errors of this function and its requests; the lines that
  \<^verbatim>\<open>decodeAttestationData\<close> prints and the \<^verbatim>\<open>console.log\<close> dumps of decoded values are
  left out.
\<close>

definition assemble_scanner ::
  "env \<Rightarrow> string \<Rightarrow> number \<Rightarrow> world \<Rightarrow> attestation_scanner option \<times> world" where
  "assemble_scanner env txHash blockNumber w0 =
     (let w1 = emit (RpcGetTransaction txHash) w0;
          caught = (\<lambda>w. (None, emit (ConsoleError
                     (''Error decoding transaction '' @ txHash @ '':'')) w));
          skip = (\<lambda>w. (None,
                   emit (ConsoleWarn (''Skipping non-matching transaction: '' @ txHash)) w))
      in case getTransaction env txHash of
           Inl e \<Rightarrow> caught w1
         | Inr None \<Rightarrow> skip w1
         | Inr (Some tx) \<Rightarrow>
             if map_option toLowerCase (tx_to tx) \<noteq> Some (CONTRACT_ADDRESS env) then skip w1
             else if tx_data tx = [] \<or> tx_data tx = ''0x'' then
               (None, emit (ConsoleWarn
                  (''Skipping transaction without input data: '' @ txHash)) w1)
             else
               (let w2 = emit (AbiParseTransaction (tx_data tx)) w1;
                    undecoded = (None, emit (ConsoleWarn
                                   (''Could not decode transaction: '' @ txHash)) w2)
                in case parseTransaction env (tx_data tx) of
                     Inl e \<Rightarrow> caught w2
                   | Inr None \<Rightarrow> undecoded
                   | Inr (Some decoded) \<Rightarrow>
                       (case args decoded of
                          None \<Rightarrow> undecoded
                        | Some (None, validationPayloads) \<Rightarrow>
                            (None, emit (ConsoleError
                               ''Error: attestationPayload is empty or undefined.'') w2)
                        | Some (Some attestationPayload, validationPayloads) \<Rightarrow>
                            (case decodeAttestationData_scanner (env_eip55 env)
                                    (attestationData attestationPayload) of
                               Inl decodeError \<Rightarrow>
                                 (None, emit (ConsoleError
                                    ''Error decoding attestation data:'') w2)
                             | Inr None \<Rightarrow>
                                 (None, emit (ConsoleError
                                    ''Error: Decoded attestation data is null.'') w2)
                             | Inr (Some decodedAttestationData) \<Rightarrow>
                                 (case getAddress (env_eip55 env)
                                         (subject attestationPayload) of
                                    Inl e \<Rightarrow> caught w2
                                  | Inr subjectAddress \<Rightarrow>
                                      (case new_Date env w2 of (now, w3) \<Rightarrow>
                                         (case toISOString now of
                                            Inl e \<Rightarrow> caught w3
                                          | Inr isoText \<Rightarrow>
                                              (Some \<lparr>a_txHash = txHash,
                                                 a_blockNumber = blockNumber,
                                                 a_schemaId = schemaId attestationPayload,
                                                 a_subject = subjectAddress,
                                                 a_isPositive =
                                                   isPositive decodedAttestationData,
                                                 a_articlePage =
                                                   articlePage decodedAttestationData,
                                                 a_submitter =
                                                   submitter decodedAttestationData,
                                                 a_timestamp = isoText\<rparr>, w3))))))))"

definition decodeAttestation_scanner :: "env \<Rightarrow> string \<Rightarrow> number \<Rightarrow> world \<Rightarrow> world" where
  "decodeAttestation_scanner env txHash blockNumber w =
     (case assemble_scanner env txHash blockNumber w of
        (None, w') \<Rightarrow> w'
      | (Some attestation, w') \<Rightarrow>
          persist_scanner attestation (emit (ConsoleLog ''New Attestation Found:'') w'))"

text \<open>
  \<^verbatim>\<open>decodeAttestation\<close> of \<^verbatim>\<open>src/unnamed/part_000\<close>, lines 105-171, in the same two
  parts: lines 107-163, then lines 165-167.
\<close>

definition assemble_part000 ::
  "env \<Rightarrow> string \<Rightarrow> number \<Rightarrow> world \<Rightarrow> attestation_part000 option \<times> world" where
  "assemble_part000 env txHash blockNumber w0 =
     (let w1 = emit (RpcGetTransaction txHash) w0;
          caught = (\<lambda>w. (None, emit (ConsoleError
                     (''Error decoding transaction '' @ txHash @ '':'')) w));
          skip = (\<lambda>w. (None,
                   emit (ConsoleWarn (''Skipping non-matching transaction: '' @ txHash)) w))
      in case getTransaction env txHash of
           Inl e \<Rightarrow> caught w1
         | Inr None \<Rightarrow> skip w1
         | Inr (Some tx) \<Rightarrow>
             if map_option toLowerCase (tx_to tx) \<noteq> Some (CONTRACT_ADDRESS env) then skip w1
             else if tx_data tx = [] \<or> tx_data tx = ''0x'' then
               (None, emit (ConsoleWarn
                  (''Skipping transaction without input data: '' @ txHash)) w1)
             else
               (let w2 = emit (AbiParseTransaction (tx_data tx)) w1;
                    undecoded = (None, emit (ConsoleWarn
                                   (''Could not decode transaction: '' @ txHash)) w2)
                in case parseTransaction env (tx_data tx) of
                     Inl e \<Rightarrow> caught w2
                   | Inr None \<Rightarrow> undecoded
                   | Inr (Some decoded) \<Rightarrow>
                       (case args decoded of
                          None \<Rightarrow> undecoded
                        | Some (None, validationPayloads) \<Rightarrow>
                            (None, emit (ConsoleError
                               ''Error: attestationPayload is empty or undefined.'') w2)
                        | Some (Some attestationPayload, validationPayloads) \<Rightarrow>
                            (case decodeAttestationData_part000 (env_eip55 env)
                                    (attestationData attestationPayload) of
                               Inl e \<Rightarrow> caught w2
                             | Inr None \<Rightarrow>
                                 (None, emit (ConsoleError
                                    ''Error: Decoded attestation data is null.'') w2)
                             | Inr (Some decodedAttestationData) \<Rightarrow>
                                 (case parseSubjectAsAddress (env_eip55 env)
                                         (subject attestationPayload) of
                                    Inl err \<Rightarrow>
                                      (None, emit (ConsoleError
                                         ''Invalid subject address:'') w2)
                                  | Inr subjectAddress \<Rightarrow>
                                      (let w3 = emit (RpcGetBlock blockNumber) w2
                                       in case getBlock env blockNumber of
                                            Inl e \<Rightarrow> caught w3
                                          | Inr None \<Rightarrow> caught w3
                                          | Inr (Some block) \<Rightarrow>
                                              (case toISOString
                                                      (times_1000 (block_timestamp block)) of
                                                 Inl e \<Rightarrow> caught w3
                                               | Inr blockTimestamp \<Rightarrow>
                                                   (Some \<lparr>b_txHash = txHash,
                                                      b_blockNumber = blockNumber,
                                                      b_from =
                                                        submitter decodedAttestationData,
                                                      b_timestamp = blockTimestamp,
                                                      b_articlePage =
                                                        articlePage decodedAttestationData,
                                                      b_positiveFeedback =
                                                        Num (if isPositive
                                                                  decodedAttestationData
                                                             then 1 else 0),
                                                      b_negativeFeedback =
                                                        Num (if isPositive
                                                                  decodedAttestationData
                                                             then 0 else 1)\<rparr>,
                                                    w3))))))))"

definition decodeAttestation_part000 :: "env \<Rightarrow> string \<Rightarrow> number \<Rightarrow> world \<Rightarrow> world" where
  "decodeAttestation_part000 env txHash blockNumber w =
     (case assemble_part000 env txHash blockNumber w of
        (None, w') \<Rightarrow> w'
      | (Some attestation, w') \<Rightarrow>
          persist_part000 attestation (emit (ConsoleLog ''Attestation Found:'') w'))"

section \<open>The historical fetch and the start of a run\<close>

text \<open>
  \<^verbatim>\<open>fetchTransactionsFromExplorer\<close> (lines 196-215 of the scanner, lines 174-191 of part
  000; the same text in both files, given here once with the file's own
  \<^verbatim>\<open>decodeAttestation\<close> as the argument \<open>decode\<close>). The loop starts one decode per
  matching item without awaiting it; a decode writes to the files in its last step
  only, so the files at the end are those of running the decodes one after another in
  some order. The model runs them in the order of the list.
\<close>

fun process_transactions ::
  "(env \<Rightarrow> string \<Rightarrow> number \<Rightarrow> world \<Rightarrow> world) \<Rightarrow> env \<Rightarrow> explorer_tx list \<Rightarrow> world \<Rightarrow> world" where
  "process_transactions decode env [] w = w"
| "process_transactions decode env (tx # txs) w =
     (case ex_to tx of
        None \<Rightarrow> emit (ConsoleError ''Error fetching transactions from LineaScan:'') w
      | Some to \<Rightarrow>
          if toLowerCase to = CONTRACT_ADDRESS env
          then process_transactions decode env txs
                 (decode env (ex_hash tx) (parseInt (ex_blockNumber tx)) w)
          else process_transactions decode env txs w)"

definition fetchTransactionsFromExplorer ::
  "(env \<Rightarrow> string \<Rightarrow> number \<Rightarrow> world \<Rightarrow> world) \<Rightarrow> env \<Rightarrow> world \<Rightarrow> world" where
  "fetchTransactionsFromExplorer decode env w =
     (let w1 = emit HttpGet w
      in case axios_get env of
           Inl e \<Rightarrow> emit (ConsoleError ''Error fetching transactions from LineaScan:'') w1
         | Inr response \<Rightarrow>
             if status response \<noteq> ''1''
             then emit (ConsoleError (''Error: LineaScan API returned an error: ''
                                      @ message response)) w1
             else process_transactions decode env (result response) w1)"

text \<open>
  The startup sequence: lines 233-240 of the scanner, lines 208-216 of part 000. The
  call of \<^verbatim>\<open>subscribeToNewBlocks\<close> is commented out in both files, so a run is the
  initialisation followed by the historical fetch.
\<close>

definition startup_scanner :: "env \<Rightarrow> world \<Rightarrow> world" where
  "startup_scanner env w =
     fetchTransactionsFromExplorer decodeAttestation_scanner env (initializeFiles_scanner w)"

definition startup_part000 :: "env \<Rightarrow> world \<Rightarrow> world" where
  "startup_part000 env w =
     fetchTransactionsFromExplorer decodeAttestation_part000 env (initializeFiles_part000 w)"

section \<open>Concrete inputs\<close>

text \<open>
  The inputs of the closed examples. \<open>sample_eip55\<close> stands in for the hash behind the
  checksum; \<open>spec_address\<close> is the address of spec 8, \<open>aa_address\<close> the submitter
  \<^verbatim>\<open>0xAAAA...AAAA\<close> of the round trip.
\<close>

definition sample_eip55 :: "address \<Rightarrow> nat \<Rightarrow> bool" where
  "sample_eip55 a i = (i mod 2 = 0)"

definition spec_address :: address where
  "spec_address = [0xAB, 0xCD, 0xEF, 0x01, 0x23, 0x45, 0x67, 0x89, 0xAB, 0xCD,
                   0xEF, 0x01, 0x23, 0x45, 0x67, 0x89, 0xAB, 0xCD, 0xEF, 0x01]"

definition aa_address :: address where
  "aa_address = replicate 20 0xAA"

definition page3_params :: "byte list" where
  "page3_params = abi_encode [VBool True, VString ''page-3'', VAddress aa_address]"

definition page3_tuple :: "byte list" where
  "page3_tuple = abi_encode [VTuple [VBool True, VString ''page-3'', VAddress aa_address]]"

text \<open>
  A world with empty files, and an outside that answers every request: one transaction
  \<^verbatim>\<open>0xabc\<close> in block 12345, sent to \<open>dest\<close>, whose decoded call carries the subject
  \<open>subj\<close> and the attestation data \<open>payload\<close>.
\<close>

definition sample_world :: world where
  "sample_world = \<lparr>files = (\<lambda>path. []), fs_log = [], trace = [], date_reads = 0\<rparr>"

definition sample_contract :: string where
  "sample_contract = ''0x5FbDB2315678afecb367f032d93F642f64180aa3''"

definition sample_tx :: "string \<Rightarrow> tx_response" where
  "sample_tx dest = \<lparr>tx_to = Some dest, tx_data = ''0x12345678''\<rparr>"

definition sample_payload :: "string \<Rightarrow> string \<Rightarrow> raw_payload" where
  "sample_payload subj payload =
     \<lparr>schemaId = hexlify (word32 1), expirationDate = 0, subject = subj,
      attestationData = payload\<rparr>"

definition sample_call :: "string \<Rightarrow> string \<Rightarrow> tx_description" where
  "sample_call subj payload = \<lparr>args = Some (Some (sample_payload subj payload), [])\<rparr>"

definition sample_item :: "string \<Rightarrow> explorer_tx" where
  "sample_item dest = \<lparr>ex_hash = ''0xabc'', ex_to = Some dest, ex_blockNumber = ''12345''\<rparr>"

definition sample_env :: "string \<Rightarrow> string \<Rightarrow> string \<Rightarrow> env" where
  "sample_env dest subj payload =
     \<lparr>env_CONTRACT_ADDRESS = sample_contract,
      getTransaction = (\<lambda>h. Inr (Some (sample_tx dest))),
      getBlock = (\<lambda>n. Inr (Some \<lparr>block_timestamp = Num 1700000000\<rparr>)),
      parseTransaction = (\<lambda>d. Inr (Some (sample_call subj payload))),
      axios_get = Inr \<lparr>status = ''1'', message = ''OK'', result = [sample_item dest]\<rparr>,
      clock = (\<lambda>k. 1700000000123 + int k),
      env_eip55 = sample_eip55\<rparr>"

text \<open>The same outside, with an explorer that reports an error.\<close>

definition failing_explorer_env :: env where
  "failing_explorer_env =
     (sample_env sample_contract (hexlify spec_address) (hexlify page3_tuple))
       \<lparr>axios_get := Inr \<lparr>status = ''0'', message = ''NOTOK'',
                             result = [sample_item sample_contract]\<rparr>\<rparr>"

definition sample_dest :: string where
  "sample_dest = ''0x5FBDB2315678AFECB367F032D93F642F64180AA3''"

definition other_dest :: string where
  "other_dest = ''0x000000000000000000000000000000000000dEaD''"

text \<open>
  Payloads: the one of the round trip with a false flag; the two encodings cut inside
  the bytes of their string; an article page of two lines, under either schema.
\<close>

definition negative_params :: "byte list" where
  "negative_params = abi_encode [VBool False, VString ''page-3'', VAddress aa_address]"



definition two_line_page :: string where
  "two_line_page = [CHR ''a'', LF, CHR ''b'']"

definition two_line_tuple :: "byte list" where
  "two_line_tuple = abi_encode [VTuple [VBool True, VString two_line_page, VAddress aa_address]]"

definition two_line_params :: "byte list" where
  "two_line_params = abi_encode [VBool True, VString two_line_page, VAddress aa_address]"

text \<open>The records that the two variants assemble from the sample transaction.\<close>

definition sample_attestation_scanner :: "string \<Rightarrow> attestation_scanner" where
  "sample_attestation_scanner page =
     \<lparr>a_txHash = ''0xabc'', a_blockNumber = Num 12345, a_schemaId = hexlify (word32 1),
      a_subject = getChecksumAddress sample_eip55 spec_address,
      a_isPositive = True, a_articlePage = page,
      a_submitter = getChecksumAddress sample_eip55 aa_address,
      a_timestamp = ''2023-11-14T22:13:20.123Z''\<rparr>"

definition sample_attestation_part000 :: "string \<Rightarrow> attestation_part000" where
  "sample_attestation_part000 page =
     \<lparr>b_txHash = ''0xabc'', b_blockNumber = Num 12345,
      b_from = getChecksumAddress sample_eip55 aa_address,
      b_timestamp = ''2023-11-14T22:13:20.000Z'', b_articlePage = page,
      b_positiveFeedback = Num 1, b_negativeFeedback = Num 0\<rparr>"

section \<open>Observations on the files\<close>

text \<open>
  A record has no line feed when none of its text members holds one. File operations
  that append, and what a list of them appends to one path.
\<close>

definition no_line_feed_scanner :: "attestation_scanner \<Rightarrow> bool" where
  "no_line_feed_scanner a \<longleftrightarrow>
     LF \<notin> set (a_txHash a) \<and> LF \<notin> set (a_schemaId a) \<and> LF \<notin> set (a_subject a)
     \<and> LF \<notin> set (a_articlePage a) \<and> LF \<notin> set (a_submitter a) \<and> LF \<notin> set (a_timestamp a)"

definition no_line_feed_part000 :: "attestation_part000 \<Rightarrow> bool" where
  "no_line_feed_part000 a \<longleftrightarrow>
     LF \<notin> set (b_txHash a) \<and> LF \<notin> set (b_from a) \<and> LF \<notin> set (b_timestamp a)
     \<and> LF \<notin> set (b_articlePage a)"

fun is_append :: "fs_op \<Rightarrow> bool" where
  "is_append (AppendFile path content) = True"
| "is_append (WriteFile path content) = False"

fun appended_to :: "string \<Rightarrow> fs_op \<Rightarrow> string" where
  "appended_to path (AppendFile p content) = (if p = path then content else [])"
| "appended_to path (WriteFile p content) = []"

definition appended :: "string \<Rightarrow> fs_op list \<Rightarrow> string" where
  "appended path ops = concat (map (appended_to path) ops)"

definition only_appended :: "world \<Rightarrow> world \<Rightarrow> fs_op list \<Rightarrow> bool" where
  "only_appended w w' ops \<longleftrightarrow>
     fs_log w' = fs_log w @ ops \<and> list_all is_append ops
     \<and> (\<forall>path. files w' path = files w path @ appended path ops)"

section \<open>Hexadecimal text and the subject normaliser of part 000\<close>

lemma unhexdigit_hexdigit_upto: "list_all (\<lambda>n. unhexdigit (hexdigit n) = Some n) [0..<16]"
  by code_simp

lemma unhexdigit_hexdigit: "n < 16 \<Longrightarrow> unhexdigit (hexdigit n) = Some n"
  using unhexdigit_hexdigit_upto by (simp add: list_all_iff)

lemma byte_nibbles_bound: "unat (b :: byte) div 16 < 16" "unat b mod 16 < 16"
proof -
  have "unat b < 256" using unsigned_less [of b, where 'a=nat] by simp
  then show "unat b div 16 < 16" by arith
  show "unat b mod 16 < 16" by simp
qed

lemma byte_of_nibbles: "(of_nat (16 * (unat b div 16) + unat b mod 16) :: byte) = b"
  by simp

lemma length_hexdigits: "length (hexdigits bs) = 2 * length bs"
  by (induction bs) auto

lemma hexdigits_append: "hexdigits (xs @ ys) = hexdigits xs @ hexdigits ys"
  by (induction xs) auto

lemma unhexdigits_hexdigits: "unhexdigits (hexdigits bs) = Some bs"
  by (induction bs) (simp_all add: unhexdigit_hexdigit byte_nibbles_bound)

lemma arrayify_hexlify: "arrayify (hexlify bs) = Some bs"
  by (simp add: arrayify_def hexlify_def unhexdigits_hexdigits)

lemma length_hexlify: "length (hexlify bs) = 2 + 2 * length bs"
  by (simp add: hexlify_def length_hexdigits)

lemma slice_neg_hexlify:
  assumes "length bs = 32"
  shows "slice_neg 40 (hexlify bs) = hexdigits (drop 12 bs)"
proof -
  have split: "hexdigits bs = hexdigits (take 12 bs) @ hexdigits (drop 12 bs)"
    by (metis append_take_drop_id hexdigits_append)
  have len: "length (hexdigits (take 12 bs)) = 24"
    using assms by (simp add: length_hexdigits)
  have "slice_neg 40 (hexlify bs) = drop 24 (hexdigits bs)"
    using assms by (simp add: slice_neg_def hexlify_def length_hexdigits)
  also have "\<dots> = hexdigits (drop 12 bs)"
    using len by (subst split) simp
  finally show ?thesis .
qed

lemma parseSubjectAsAddress_20:
  "length bs = 20 \<Longrightarrow>
   parseSubjectAsAddress eip55 (hexlify bs) = Inr (getChecksumAddress eip55 bs)"
  by (simp add: parseSubjectAsAddress_def length_hexlify getAddress_def arrayify_hexlify)

lemma parseSubjectAsAddress_32:
  assumes "length bs = 32"
  shows "parseSubjectAsAddress eip55 (hexlify bs) = Inr (getChecksumAddress eip55 (drop 12 bs))"
proof -
  have "''0x'' @ slice_neg 40 (hexlify bs) = hexlify (drop 12 bs)"
    unfolding slice_neg_hexlify [OF assms] by (simp add: hexlify_def)
  then show ?thesis
    using assms
    by (simp add: parseSubjectAsAddress_def length_hexlify getAddress_def arrayify_hexlify)
qed

lemma parseSubjectAsAddress_padded:
  assumes "length a = 20"
  shows "parseSubjectAsAddress eip55 (hexlify (replicate 12 0 @ a)) =
         parseSubjectAsAddress eip55 (hexlify a)"
  using assms by (simp add: parseSubjectAsAddress_32 parseSubjectAsAddress_20)

section \<open>Properties of the payload decoders\<close>






lemma decode_values_shape3:
  "decode_values [TBool, TString, TAddress] d p = Some vs \<Longrightarrow>
   \<exists>b s a. vs = [VBool b, VString s, VAddress a]"
  by (auto split: option.splits if_splits)


lemma abi_decode_params_shape:
  "abi_decode [TBool, TString, TAddress] data = Inr vs \<Longrightarrow>
   \<exists>b s a. vs = [VBool b, VString s, VAddress a]"
  unfolding abi_decode_def
  by (auto split: option.splits dest: decode_values_shape3 simp del: decode_values.simps)

lemma decode_tuple_at:
  "list_ex dynamic ts \<Longrightarrow>
   decode_values [TTuple ts] d 0 =
     (case read_word d 0 of
        None \<Rightarrow> None
      | Some off \<Rightarrow> map_option (\<lambda>vs. [VTuple vs]) (decode_values ts (drop off d) 0))"
  by (cases "read_word d 0"; cases "decode_values ts (drop (the (read_word d 0)) d) 0") simp_all


lemma abi_decode_tuple_shape:
  assumes "abi_decode attestationDataSchema data = Inr vs"
  shows "\<exists>b s a. vs = [VTuple [VBool b, VString s, VAddress a]]"
proof -
  obtain bs where bs: "arrayify data = Some bs"
      and dec: "decode_values [TTuple [TBool, TString, TAddress]] bs 0 = Some vs"
    using assms unfolding abi_decode_def attestationDataSchema_def
    by (auto split: option.splits simp del: decode_values.simps)
  have dyn: "list_ex dynamic [TBool, TString, TAddress]" by simp
  obtain off ws where "decode_values [TBool, TString, TAddress] (drop off bs) 0 = Some ws"
      and vs: "vs = [VTuple ws]"
    using dec unfolding decode_tuple_at [OF dyn]
    by (auto split: option.splits simp del: decode_values.simps)
  then show ?thesis
    using decode_values_shape3 by blast
qed









section \<open>The sample inputs, evaluated\<close>

lemma sample_env_simps:
  "getTransaction (sample_env dest subj payload) h = Inr (Some (sample_tx dest))"
  "parseTransaction (sample_env dest subj payload) d = Inr (Some (sample_call subj payload))"
  "args (sample_call subj payload) = Some (Some (sample_payload subj payload), [])"
  "attestationData (sample_payload subj payload) = payload"
  "subject (sample_payload subj payload) = subj"
  "tx_data (sample_tx dest) = ''0x12345678''"
  "tx_to (sample_tx dest) = Some dest"
  "env_eip55 (sample_env dest subj payload) = sample_eip55"
  "ex_to (sample_item dest) = Some dest"
  "ex_hash (sample_item dest) = ''0xabc''"
  "ex_blockNumber (sample_item dest) = ''12345''"
  by (simp_all add: sample_env_def sample_call_def sample_payload_def sample_tx_def
      sample_item_def)

lemma sample_dest_matches:
  "toLowerCase sample_dest = CONTRACT_ADDRESS (sample_env dest subj payload)"
  by code_simp

lemma other_dest_differs:
  "toLowerCase other_dest \<noteq> CONTRACT_ADDRESS (sample_env dest subj payload)"
  by code_simp

lemma failing_explorer_response:
  "axios_get failing_explorer_env =
     Inr \<lparr>status = ''0'', message = ''NOTOK'', result = [sample_item sample_contract]\<rparr>"
  by (simp add: failing_explorer_env_def)

lemma assemble_sample_scanner:
  "fst (assemble_scanner (sample_env sample_dest (hexlify spec_address) (hexlify page3_tuple))
          ''0xabc'' (Num 12345) sample_world) = Some (sample_attestation_scanner ''page-3'')"
  by code_simp

lemma assemble_sample_part000:
  "fst (assemble_part000 (sample_env sample_dest (hexlify spec_address) (hexlify page3_params))
          ''0xabc'' (Num 12345) sample_world) = Some (sample_attestation_part000 ''page-3'')"
  by code_simp

lemma assemble_two_line_scanner:
  "fst (assemble_scanner (sample_env sample_dest (hexlify spec_address) (hexlify two_line_tuple))
          ''0xabc'' (Num 12345) sample_world) = Some (sample_attestation_scanner two_line_page)"
  by code_simp

lemma assemble_two_line_part000:
  "fst (assemble_part000 (sample_env sample_dest (hexlify spec_address) (hexlify two_line_params))
          ''0xabc'' (Num 12345) sample_world) = Some (sample_attestation_part000 two_line_page)"
  by code_simp

lemma assemble_padded_scanner:
  "fst (assemble_scanner
          (sample_env sample_dest (hexlify (replicate 12 0 @ spec_address)) (hexlify page3_tuple))
          ''0xabc'' (Num 12345) sample_world) = None"
  by code_simp

lemma assemble_padded_part000:
  "fst (assemble_part000
          (sample_env sample_dest (hexlify (replicate 12 0 @ spec_address)) (hexlify page3_params))
          ''0xabc'' (Num 12345) sample_world) = Some (sample_attestation_part000 ''page-3'')"
  by code_simp

lemma startup_padded_scanner_log:
  "fs_log (startup_scanner
      (sample_env sample_dest (hexlify (replicate 12 0 @ spec_address)) (hexlify page3_tuple))
      sample_world) =
   [WriteFile JSON_FILE [], WriteFile CSV_FILE (csv_header_scanner @ [LF])]"
  by code_simp

lemma two_line_rows_scanner:
  "length (rows (files (fold persist_scanner [sample_attestation_scanner two_line_page]
             (initializeFiles_scanner sample_world)) CSV_FILE)) = 3"
  by code_simp

lemma two_line_rows_part000:
  "length (rows (files (fold persist_part000 [sample_attestation_part000 two_line_page]
             (initializeFiles_part000 sample_world)) CSV_FILE)) = 3"
  by code_simp

lemma sample_no_line_feed:
  "list_all no_line_feed_scanner
     [sample_attestation_scanner ''page-3'', sample_attestation_scanner ''page-4'']"
  "list_all no_line_feed_part000 [sample_attestation_part000 ''page-3'']"
  by code_simp+



lemma negative_both:
  "fst (assemble_scanner (sample_env sample_dest (hexlify spec_address) (hexlify negative_params))
          ''0xabc'' (Num 12345) sample_world)
     = Some ((sample_attestation_scanner ''page-3'')\<lparr>a_isPositive := False\<rparr>)"
  "fst (assemble_part000 (sample_env sample_dest (hexlify spec_address) (hexlify negative_params))
          ''0xabc'' (Num 12345) sample_world)
     = Some ((sample_attestation_part000 ''page-3'')
               \<lparr>b_positiveFeedback := Num 0, b_negativeFeedback := Num 1\<rparr>)"
  by code_simp+

lemma timestamps_differ:
  "a_timestamp ((sample_attestation_scanner ''page-3'')\<lparr>a_isPositive := False\<rparr>) \<noteq>
   b_timestamp ((sample_attestation_part000 ''page-3'')
                  \<lparr>b_positiveFeedback := Num 0, b_negativeFeedback := Num 1\<rparr>)"
  by (simp add: sample_attestation_scanner_def sample_attestation_part000_def)

section \<open>The subject in the two variants\<close>

lemma getAddress_32:
  "length bs = 32 \<Longrightarrow> getAddress eip55 (hexlify bs) = Inl InvalidAddress"
  by (simp add: getAddress_def arrayify_hexlify)

lemma getAddress_20:
  "length bs = 20 \<Longrightarrow> getAddress eip55 (hexlify bs) = Inr (getChecksumAddress eip55 bs)"
  by (simp add: getAddress_def arrayify_hexlify)

lemma spec_address_length: "length spec_address = 20"
  by (simp add: spec_address_def)

text \<open>
  C1, on the code. The subject normaliser of \<^verbatim>\<open>src/unnamed/part_000\<close> does what the claim
  says (the three lemmas on \<open>parseSubjectAsAddress\<close> above, for every byte string). The
  variant of \<^verbatim>\<open>src/attestation-scanner.js\<close> passes the subject to the address parser as
  it is (line 177): on the 32-byte subject of spec 8, the address
  0xAbCdEf0123456789AbCdEf0123456789AbCdEf01 behind twelve zero bytes, the parser
  throws, no record is assembled and the run appends nothing, while the same variant
  assembles a record from the 20-byte subject, and part 000 normalises the padded
  subject to the checksummed address and assembles its record.
\<close>

theorem C1_scanner_rejects_padded_subject:
  "getAddress sample_eip55 (hexlify (replicate 12 0 @ spec_address)) = Inl InvalidAddress
   \<and> fst (assemble_scanner
          (sample_env sample_dest (hexlify (replicate 12 0 @ spec_address)) (hexlify page3_tuple))
          ''0xabc'' (Num 12345) sample_world) = None
   \<and> fs_log (startup_scanner
          (sample_env sample_dest (hexlify (replicate 12 0 @ spec_address)) (hexlify page3_tuple))
          sample_world) =
       [WriteFile JSON_FILE [], WriteFile CSV_FILE (csv_header_scanner @ [LF])]
   \<and> fst (assemble_scanner
          (sample_env sample_dest (hexlify spec_address) (hexlify page3_tuple))
          ''0xabc'' (Num 12345) sample_world) = Some (sample_attestation_scanner ''page-3'')
   \<and> parseSubjectAsAddress sample_eip55 (hexlify (replicate 12 0 @ spec_address)) =
       Inr (getChecksumAddress sample_eip55 spec_address)
   \<and> fst (assemble_part000
          (sample_env sample_dest (hexlify (replicate 12 0 @ spec_address)) (hexlify page3_params))
          ''0xabc'' (Num 12345) sample_world) = Some (sample_attestation_part000 ''page-3'')"
  using getAddress_32 [of "replicate 12 0 @ spec_address" sample_eip55]
    parseSubjectAsAddress_32 [of "replicate 12 0 @ spec_address" sample_eip55]
  by (simp add: spec_address_length assemble_padded_scanner startup_padded_scanner_log
      assemble_sample_scanner assemble_padded_part000)

section \<open>Transactions that produce no record\<close>

lemma other_destination_scanner:
  assumes "getTransaction env txHash = Inr (Some tx)"
    and "map_option toLowerCase (tx_to tx) \<noteq> Some (CONTRACT_ADDRESS env)"
  shows "decodeAttestation_scanner env txHash blockNumber w =
           w\<lparr>trace := trace w @ [RpcGetTransaction txHash,
                ConsoleWarn (''Skipping non-matching transaction: '' @ txHash)]\<rparr>"
  using assms by (simp add: decodeAttestation_scanner_def assemble_scanner_def emit_def)

lemma other_destination_part000:
  assumes "getTransaction env txHash = Inr (Some tx)"
    and "map_option toLowerCase (tx_to tx) \<noteq> Some (CONTRACT_ADDRESS env)"
  shows "decodeAttestation_part000 env txHash blockNumber w =
           w\<lparr>trace := trace w @ [RpcGetTransaction txHash,
                ConsoleWarn (''Skipping non-matching transaction: '' @ txHash)]\<rparr>"
  using assms by (simp add: decodeAttestation_part000_def assemble_part000_def emit_def)

text \<open>
  C6. An item of the explorer whose \<^verbatim>\<open>to\<close>, in lower case, is not the contract address
  is passed over by the loop: nothing is done for it. A transaction that the provider
  returns with a \<^verbatim>\<open>to\<close> that is not the contract address (or with none) leaves only the
  request and the warning in the trace: the call decoder is not invoked and no file is
  touched. In both variants.
\<close>

theorem C6_other_destination_not_decoded:
  "(ex_to x = Some dest \<and> toLowerCase dest \<noteq> CONTRACT_ADDRESS env \<longrightarrow>
      process_transactions decode env (x # xs) w = process_transactions decode env xs w)
   \<and> (getTransaction env txHash = Inr (Some tx)
        \<and> map_option toLowerCase (tx_to tx) \<noteq> Some (CONTRACT_ADDRESS env) \<longrightarrow>
      decodeAttestation_scanner env txHash blockNumber w =
        w\<lparr>trace := trace w @ [RpcGetTransaction txHash,
             ConsoleWarn (''Skipping non-matching transaction: '' @ txHash)]\<rparr>
      \<and> decodeAttestation_part000 env txHash blockNumber w =
        w\<lparr>trace := trace w @ [RpcGetTransaction txHash,
             ConsoleWarn (''Skipping non-matching transaction: '' @ txHash)]\<rparr>)"
  by (simp add: other_destination_scanner other_destination_part000)

text \<open>C6 at a concrete input: the sample transaction, sent to another address.\<close>

theorem C6_witness:
  "ex_to (sample_item other_dest) = Some other_dest
   \<and> toLowerCase other_dest \<noteq>
       CONTRACT_ADDRESS (sample_env other_dest (hexlify spec_address) (hexlify page3_tuple))
   \<and> process_transactions decodeAttestation_scanner
        (sample_env other_dest (hexlify spec_address) (hexlify page3_tuple))
        [sample_item other_dest] sample_world = sample_world
   \<and> getTransaction (sample_env other_dest (hexlify spec_address) (hexlify page3_tuple)) ''0xabc''
       = Inr (Some (sample_tx other_dest))
   \<and> decodeAttestation_scanner
        (sample_env other_dest (hexlify spec_address) (hexlify page3_tuple))
        ''0xabc'' (Num 12345) sample_world =
      sample_world\<lparr>trace := trace sample_world @ [RpcGetTransaction ''0xabc'',
        ConsoleWarn (''Skipping non-matching transaction: '' @ ''0xabc'')]\<rparr>
   \<and> decodeAttestation_part000
        (sample_env other_dest (hexlify spec_address) (hexlify page3_tuple))
        ''0xabc'' (Num 12345) sample_world =
      sample_world\<lparr>trace := trace sample_world @ [RpcGetTransaction ''0xabc'',
        ConsoleWarn (''Skipping non-matching transaction: '' @ ''0xabc'')]\<rparr>"
  using C6_other_destination_not_decoded
    [of "sample_item other_dest" other_dest
        "sample_env other_dest (hexlify spec_address) (hexlify page3_tuple)"
        decodeAttestation_scanner "[]" sample_world "''0xabc''" "sample_tx other_dest"
        "Num 12345"]
    other_dest_differs [of other_dest "hexlify spec_address" "hexlify page3_tuple"]
  by (simp add: sample_env_simps)

text \<open>
  C7. When the status of the explorer response is not \<^verbatim>\<open>"1"\<close>, the fetch ends with the
  request and one error line in the trace and nothing else: whatever the items of the
  response and whatever the decode function, no item is looked at.
\<close>

theorem C7_bad_status_aborts_fetch:
  "axios_get env = Inr response \<and> status response \<noteq> ''1'' \<longrightarrow>
   fetchTransactionsFromExplorer decode env w =
     w\<lparr>trace := trace w @ [HttpGet,
          ConsoleError (''Error: LineaScan API returned an error: '' @ message response)]\<rparr>"
  by (simp add: fetchTransactionsFromExplorer_def emit_def)

text \<open>C7 at a concrete input: status \<^verbatim>\<open>"0"\<close> and a response that holds a matching item.\<close>

theorem C7_witness:
  "axios_get failing_explorer_env =
     Inr \<lparr>status = ''0'', message = ''NOTOK'', result = [sample_item sample_contract]\<rparr>
   \<and> ''0'' \<noteq> ''1''
   \<and> fetchTransactionsFromExplorer decodeAttestation_scanner failing_explorer_env sample_world =
      sample_world\<lparr>trace := trace sample_world @ [HttpGet,
        ConsoleError (''Error: LineaScan API returned an error: '' @ ''NOTOK'')]\<rparr>"
  using C7_bad_status_aborts_fetch
    [of failing_explorer_env
        "\<lparr>status = ''0'', message = ''NOTOK'', result = [sample_item sample_contract]\<rparr>"
        decodeAttestation_scanner sample_world]
    failing_explorer_response
  by simp

lemma payload_null_scanner:
  assumes "getTransaction env txHash = Inr (Some tx)"
    and "map_option toLowerCase (tx_to tx) = Some (CONTRACT_ADDRESS env)"
    and "tx_data tx \<noteq> []" and "tx_data tx \<noteq> ''0x''"
    and "parseTransaction env (tx_data tx) = Inr (Some decoded)"
    and "args decoded = Some (Some payload, validationPayloads)"
    and "decodeAttestationData_scanner (env_eip55 env) (attestationData payload) = Inr None"
  shows "decodeAttestation_scanner env txHash blockNumber w =
           w\<lparr>trace := trace w @ [RpcGetTransaction txHash, AbiParseTransaction (tx_data tx),
                ConsoleError ''Error: Decoded attestation data is null.'']\<rparr>"
  using assms by (simp add: decodeAttestation_scanner_def assemble_scanner_def emit_def)

lemma payload_null_part000:
  assumes "getTransaction env txHash = Inr (Some tx)"
    and "map_option toLowerCase (tx_to tx) = Some (CONTRACT_ADDRESS env)"
    and "tx_data tx \<noteq> []" and "tx_data tx \<noteq> ''0x''"
    and "parseTransaction env (tx_data tx) = Inr (Some decoded)"
    and "args decoded = Some (Some payload, validationPayloads)"
    and "decodeAttestationData_part000 (env_eip55 env) (attestationData payload) = Inr None"
  shows "decodeAttestation_part000 env txHash blockNumber w =
           w\<lparr>trace := trace w @ [RpcGetTransaction txHash, AbiParseTransaction (tx_data tx),
                ConsoleError ''Error: Decoded attestation data is null.'']\<rparr>"
  using assms by (simp add: decodeAttestation_part000_def assemble_part000_def emit_def)



lemma decodeAttestationData_scanner_returns:
  "\<exists>r. decodeAttestationData_scanner eip55 encodedData = Inr r"
  by (auto simp: decodeAttestationData_scanner_def
      split: sum.splits list.splits abi_value.splits)

lemma decodeAttestationData_part000_returns:
  "\<exists>r. decodeAttestationData_part000 eip55 encodedData = Inr r"
  by (auto simp: decodeAttestationData_part000_def
      split: sum.splits list.splits abi_value.splits)




text \<open>
  C4. On the empty string and on \<^verbatim>\<open>0x\<close> the payload decoder of either variant returns
  \<^verbatim>\<open>null\<close>; on no input at all does it throw; and a transaction that reaches the payload
  decoder with such attestation data leaves the world as it was, apart from the
  console and the calls already made: no record.
\<close>

theorem C4_empty_payload_is_no_data:
  assumes "getTransaction env txHash = Inr (Some tx)"
    and "map_option toLowerCase (tx_to tx) = Some (CONTRACT_ADDRESS env)"
    and "tx_data tx \<noteq> []" and "tx_data tx \<noteq> ''0x''"
    and "parseTransaction env (tx_data tx) = Inr (Some decoded)"
    and "args decoded = Some (Some payload, validationPayloads)"
    and "attestationData payload = [] \<or> attestationData payload = ''0x''"
  shows
   "decodeAttestationData_scanner eip55 [] = Inr None
    \<and> decodeAttestationData_scanner eip55 ''0x'' = Inr None
    \<and> decodeAttestationData_part000 eip55 [] = Inr None
    \<and> decodeAttestationData_part000 eip55 ''0x'' = Inr None
    \<and> (\<exists>r. decodeAttestationData_scanner eip55 encodedData = Inr r)
    \<and> (\<exists>r. decodeAttestationData_part000 eip55 encodedData = Inr r)
    \<and> decodeAttestation_scanner env txHash blockNumber w =
        w\<lparr>trace := trace w @ [RpcGetTransaction txHash, AbiParseTransaction (tx_data tx),
             ConsoleError ''Error: Decoded attestation data is null.'']\<rparr>
    \<and> decodeAttestation_part000 env txHash blockNumber w =
        w\<lparr>trace := trace w @ [RpcGetTransaction txHash, AbiParseTransaction (tx_data tx),
             ConsoleError ''Error: Decoded attestation data is null.'']\<rparr>"
proof -
  have a: "decodeAttestationData_scanner (env_eip55 env) (attestationData payload) = Inr None"
    using assms(7) by (auto simp: decodeAttestationData_scanner_def)
  have b: "decodeAttestationData_part000 (env_eip55 env) (attestationData payload) = Inr None"
    using assms(7) by (auto simp: decodeAttestationData_part000_def)
  show ?thesis
    using payload_null_scanner [OF assms(1-6) a] payload_null_part000 [OF assms(1-6) b]
      decodeAttestationData_scanner_returns [of eip55 encodedData]
      decodeAttestationData_part000_returns [of eip55 encodedData]
    by (simp add: decodeAttestationData_scanner_def decodeAttestationData_part000_def)
qed

text \<open>C4 at a concrete input: the sample transaction with attestation data \<^verbatim>\<open>0x\<close>.\<close>

theorem C4_witness:
  "attestationData (sample_payload (hexlify spec_address) ''0x'') = ''0x''
   \<and> decodeAttestationData_scanner sample_eip55 ''0x'' = Inr None
   \<and> decodeAttestationData_part000 sample_eip55 [] = Inr None
   \<and> decodeAttestation_scanner (sample_env sample_dest (hexlify spec_address) ''0x'')
        ''0xabc'' (Num 12345) sample_world =
      sample_world\<lparr>trace := trace sample_world @
        [RpcGetTransaction ''0xabc'', AbiParseTransaction ''0x12345678'',
         ConsoleError ''Error: Decoded attestation data is null.'']\<rparr>
   \<and> decodeAttestation_part000 (sample_env sample_dest (hexlify spec_address) ''0x'')
        ''0xabc'' (Num 12345) sample_world =
      sample_world\<lparr>trace := trace sample_world @
        [RpcGetTransaction ''0xabc'', AbiParseTransaction ''0x12345678'',
         ConsoleError ''Error: Decoded attestation data is null.'']\<rparr>"
proof -
  let ?env = "sample_env sample_dest (hexlify spec_address) ''0x''"
  have h1: "getTransaction ?env ''0xabc'' = Inr (Some (sample_tx sample_dest))"
    and h5: "parseTransaction ?env (tx_data (sample_tx sample_dest)) =
               Inr (Some (sample_call (hexlify spec_address) ''0x''))"
    and h6: "args (sample_call (hexlify spec_address) ''0x'') =
               Some (Some (sample_payload (hexlify spec_address) ''0x''), [])"
    and h7: "attestationData (sample_payload (hexlify spec_address) ''0x'') = []
             \<or> attestationData (sample_payload (hexlify spec_address) ''0x'') = ''0x''"
    by (simp_all add: sample_env_simps)
  have h2: "map_option toLowerCase (tx_to (sample_tx sample_dest)) = Some (CONTRACT_ADDRESS ?env)"
    by (simp add: sample_env_simps sample_dest_matches)
  have h3: "tx_data (sample_tx sample_dest) \<noteq> []" and h4: "tx_data (sample_tx sample_dest) \<noteq> ''0x''"
    by (simp_all add: sample_env_simps)
  show ?thesis
    using C4_empty_payload_is_no_data [OF h1 h2 h3 h4 h5 h6 h7,
        of sample_eip55 "[]" "Num 12345" sample_world]
    by (simp add: sample_env_simps)
qed

section \<open>Rows and entries of the artifacts\<close>

lemma rows_from_line:
  "LF \<notin> set l \<Longrightarrow> rows_from cur (l @ LF # rest) = (cur @ l) # rows_from [] rest"
  by (induction l arbitrary: cur) auto

lemma rows_line: "LF \<notin> set l \<Longrightarrow> rows (l @ LF # rest) = l # rows rest"
  by (simp add: rows_def rows_from_line)

lemma rows_empty: "rows [] = []"
  by (simp add: rows_def)

lemma rows_lines:
  "\<forall>l \<in> set ls. LF \<notin> set l \<Longrightarrow> rows (concat (map (\<lambda>l. l @ [LF]) ls) @ rest) = ls @ rows rest"
  by (induction ls) (simp_all add: rows_line)

lemma hexdigit_upto_not_LF: "list_all (\<lambda>n. hexdigit n \<noteq> LF) [0..<16]"
  by code_simp

lemma hexdigit_not_LF: "n < 16 \<Longrightarrow> hexdigit n \<noteq> LF" "n < 16 \<Longrightarrow> LF \<noteq> hexdigit n"
  using hexdigit_upto_not_LF by (auto simp: list_all_iff)

lemma dec_no_LF: "LF \<notin> set (dec n)"
proof (induction n rule: dec.induct)
  case (1 n)
  show ?case
  proof (cases "n < 10")
    case True
    then show ?thesis by (subst dec.simps) (simp add: hexdigit_not_LF)
  next
    case False
    then have "LF \<notin> set (dec (n div 10))" using 1 by simp
    moreover have "hexdigit (n mod 10) \<noteq> LF" by (rule hexdigit_not_LF(1)) simp
    ultimately show ?thesis using False by (subst dec.simps) simp
  qed
qed

lemma String_number_no_LF: "LF \<notin> set (String_number x)"
  by (cases x) (simp_all add: dec_no_LF)

lemma String_bool_no_LF: "LF \<notin> set (String_bool b)"
  by (simp add: String_bool_def)

lemma json_escape_no_LF: "LF \<notin> set (json_escape c)"
proof -
  have "of_char c < (32::nat) \<Longrightarrow> of_char c div 16 < (16::nat)" by simp
  moreover have "(of_char c :: nat) \<noteq> 10 \<Longrightarrow> LF \<noteq> c" by auto
  moreover have "\<not> (of_char c :: nat) < 32 \<Longrightarrow> LF \<noteq> c" by auto
  ultimately show ?thesis
    by (simp add: json_escape_def Let_def hexdigit_not_LF)
qed

lemma json_quote_no_LF: "LF \<notin> set (json_quote s)"
  by (simp add: json_quote_def json_escape_no_LF)

lemma json_text_no_LF: "LF \<notin> set (json_text v)"
  by (cases v rule: json_text.cases) (simp_all add: json_quote_no_LF dec_no_LF String_bool_no_LF)

lemma json_member_no_LF: "LF \<notin> set (json_member kv)"
  by (simp add: json_member_def json_quote_no_LF json_text_no_LF)

lemma json_member_not_brace: "json_member kv \<noteq> ''}''" "json_member kv @ '','' \<noteq> ''}''"
  by (simp_all add: json_member_def)

lemma json_members_rows:
  "props \<noteq> [] \<Longrightarrow>
   filter (\<lambda>l. l = ''}'') (rows (json_members props @ rest)) =
   filter (\<lambda>l. l = ''}'') (rows rest)"
proof (induction props rule: json_members.induct)
  case 1
  then show ?case by simp
next
  case (2 kv)
  show ?case
    using rows_line [of "json_member kv" rest]
    by (simp add: json_member_no_LF json_member_not_brace)
next
  case (3 kv kv' kvs)
  have "LF \<notin> set (json_member kv @ '','')"
    by (simp add: json_member_no_LF)
  then have "rows ((json_member kv @ '','') @ LF # (json_members (kv' # kvs) @ rest)) =
             (json_member kv @ '','') # rows (json_members (kv' # kvs) @ rest)"
    by (rule rows_line)
  then show ?case
    using 3 by (simp add: json_member_not_brace)
qed

lemma json_entry_rows:
  assumes "props \<noteq> []"
  shows "json_entries (JSON_stringify props @ LF # rest) = Suc (json_entries rest)"
proof -
  have a: "rows (''{'' @ LF # (json_members props @ ''}'' @ LF # rest)) =
        ''{'' # rows (json_members props @ ''}'' @ LF # rest)"
    by (rule rows_line) simp
  have b: "rows (''}'' @ LF # rest) = ''}'' # rows rest"
    by (rule rows_line) simp
  show ?thesis
    using assms a b json_members_rows [OF assms, of "''}'' @ LF # rest"]
    by (simp add: json_entries_def JSON_stringify_def)
qed

lemma json_entries_concat:
  "\<forall>props \<in> set ps. props \<noteq> [] \<Longrightarrow>
   json_entries (concat (map (\<lambda>props. JSON_stringify props @ [LF]) ps)) = length ps"
proof (induction ps)
  case Nil
  then show ?case by (simp add: json_entries_def rows_empty)
next
  case (Cons props ps)
  then show ?case
    using json_entry_rows [of props "concat (map (\<lambda>props. JSON_stringify props @ [LF]) ps)"]
    by simp
qed

lemma JSON_CSV_distinct: "JSON_FILE \<noteq> CSV_FILE"
  by (simp add: JSON_FILE_def CSV_FILE_def)

lemma files_fold_persist_scanner:
  "files (fold persist_scanner rs w) CSV_FILE =
     files w CSV_FILE @ concat (map (\<lambda>r. csvLine_scanner r @ [LF]) rs)
   \<and> files (fold persist_scanner rs w) JSON_FILE =
     files w JSON_FILE @ concat (map (\<lambda>r. JSON_stringify (json_of_scanner r) @ [LF]) rs)"
  using JSON_CSV_distinct
  by (induction rs arbitrary: w)
     (auto simp: persist_scanner_def saveToCSV_scanner_def saveToJSON_scanner_def
        appendFileSync_def)

lemma files_fold_persist_part000:
  "files (fold persist_part000 rs w) CSV_FILE =
     files w CSV_FILE @ concat (map (\<lambda>r. csvLine_part000 r @ [LF]) rs)
   \<and> files (fold persist_part000 rs w) JSON_FILE =
     files w JSON_FILE @ concat (map (\<lambda>r. JSON_stringify (json_of_part000 r) @ [LF]) rs)"
  using JSON_CSV_distinct
  by (induction rs arbitrary: w)
     (auto simp: persist_part000_def saveToCSV_part000_def saveToJSON_part000_def
        appendFileSync_def)

lemma files_initializeFiles_scanner:
  "files (initializeFiles_scanner w) JSON_FILE = []"
  "files (initializeFiles_scanner w) CSV_FILE = csv_header_scanner @ [LF]"
  using JSON_CSV_distinct by (simp_all add: initializeFiles_scanner_def writeFileSync_def)

lemma files_initializeFiles_part000:
  "files (initializeFiles_part000 w) JSON_FILE = []"
  "files (initializeFiles_part000 w) CSV_FILE = csv_header_part000 @ [LF]"
  using JSON_CSV_distinct by (simp_all add: initializeFiles_part000_def writeFileSync_def)

lemma header_no_LF: "LF \<notin> set csv_header_scanner" "LF \<notin> set csv_header_part000"
  by (simp_all add: csv_header_scanner_def csv_header_part000_def)

lemma csvLine_scanner_no_LF: "no_line_feed_scanner a \<Longrightarrow> LF \<notin> set (csvLine_scanner a)"
  by (simp add: no_line_feed_scanner_def csvLine_scanner_def String_number_no_LF
      String_bool_no_LF)

lemma csvLine_part000_no_LF: "no_line_feed_part000 a \<Longrightarrow> LF \<notin> set (csvLine_part000 a)"
  by (simp add: no_line_feed_part000_def csvLine_part000_def String_number_no_LF)

text \<open>
  C5, as amended. After the initialisation and the appending of \<open>N\<close> records none of
  whose text members holds a line feed, the rows of the tabular artifact are the header
  row followed by the \<open>N\<close> rows of the records, in order; and for every sequence of \<open>N\<close>
  records, with or without line feeds, the structured artifact holds \<open>N\<close> entries. In
  both variants.
\<close>

theorem C5_rows_and_entries:
  "(list_all no_line_feed_scanner rs \<longrightarrow>
      rows (files (fold persist_scanner rs (initializeFiles_scanner w)) CSV_FILE) =
        csv_header_scanner # map csvLine_scanner rs)
   \<and> json_entries (files (fold persist_scanner rs (initializeFiles_scanner w)) JSON_FILE) =
        length rs
   \<and> (list_all no_line_feed_part000 rs' \<longrightarrow>
      rows (files (fold persist_part000 rs' (initializeFiles_part000 w)) CSV_FILE) =
        csv_header_part000 # map csvLine_part000 rs')
   \<and> json_entries (files (fold persist_part000 rs' (initializeFiles_part000 w)) JSON_FILE) =
        length rs'"
proof (intro conjI impI)
  assume "list_all no_line_feed_scanner rs"
  then have "\<forall>l \<in> set (map csvLine_scanner rs). LF \<notin> set l"
    by (simp add: list_all_iff csvLine_scanner_no_LF)
  then have "rows (concat (map (\<lambda>l. l @ [LF]) (map csvLine_scanner rs)) @ []) =
             map csvLine_scanner rs @ rows []"
    by (rule rows_lines)
  then show "rows (files (fold persist_scanner rs (initializeFiles_scanner w)) CSV_FILE) =
        csv_header_scanner # map csvLine_scanner rs"
    using rows_line [OF header_no_LF(1)]
    by (simp add: files_fold_persist_scanner files_initializeFiles_scanner rows_empty
        comp_def)
next
  assume "list_all no_line_feed_part000 rs'"
  then have "\<forall>l \<in> set (map csvLine_part000 rs'). LF \<notin> set l"
    by (simp add: list_all_iff csvLine_part000_no_LF)
  then have "rows (concat (map (\<lambda>l. l @ [LF]) (map csvLine_part000 rs')) @ []) =
             map csvLine_part000 rs' @ rows []"
    by (rule rows_lines)
  then show "rows (files (fold persist_part000 rs' (initializeFiles_part000 w)) CSV_FILE) =
        csv_header_part000 # map csvLine_part000 rs'"
    using rows_line [OF header_no_LF(2)]
    by (simp add: files_fold_persist_part000 files_initializeFiles_part000 rows_empty
        comp_def)
next
  have "\<forall>props \<in> set (map json_of_scanner rs). props \<noteq> []"
    by (simp add: json_of_scanner_def)
  then show "json_entries (files (fold persist_scanner rs (initializeFiles_scanner w)) JSON_FILE)
      = length rs"
    using json_entries_concat [of "map json_of_scanner rs"]
    by (simp add: files_fold_persist_scanner files_initializeFiles_scanner comp_def)
next
  have "\<forall>props \<in> set (map json_of_part000 rs'). props \<noteq> []"
    by (simp add: json_of_part000_def)
  then show "json_entries (files (fold persist_part000 rs' (initializeFiles_part000 w)) JSON_FILE)
      = length rs'"
    using json_entries_concat [of "map json_of_part000 rs'"]
    by (simp add: files_fold_persist_part000 files_initializeFiles_part000 comp_def)
qed

text \<open>
  C5, as stated, fails: neither variant quotes or escapes a member in the tabular
  artifact. The record assembled from a transaction whose article page is the two lines
  "a" and "b" is one record, and the tabular artifact then has three rows.
\<close>

theorem C5_counterexample:
  "fst (assemble_scanner (sample_env sample_dest (hexlify spec_address) (hexlify two_line_tuple))
          ''0xabc'' (Num 12345) sample_world) = Some (sample_attestation_scanner two_line_page)
   \<and> length (rows (files (fold persist_scanner [sample_attestation_scanner two_line_page]
                 (initializeFiles_scanner sample_world)) CSV_FILE)) = 3
   \<and> fst (assemble_part000 (sample_env sample_dest (hexlify spec_address) (hexlify two_line_params))
          ''0xabc'' (Num 12345) sample_world) = Some (sample_attestation_part000 two_line_page)
   \<and> length (rows (files (fold persist_part000 [sample_attestation_part000 two_line_page]
                 (initializeFiles_part000 sample_world)) CSV_FILE)) = 3"
  by (intro conjI assemble_two_line_scanner two_line_rows_scanner assemble_two_line_part000
      two_line_rows_part000)

text \<open>C5 at a concrete input: two records in one variant, one in the other.\<close>

theorem C5_witness:
  "list_all no_line_feed_scanner
     [sample_attestation_scanner ''page-3'', sample_attestation_scanner ''page-4'']
   \<and> rows (files (fold persist_scanner
               [sample_attestation_scanner ''page-3'', sample_attestation_scanner ''page-4'']
               (initializeFiles_scanner sample_world)) CSV_FILE) =
       [csv_header_scanner, csvLine_scanner (sample_attestation_scanner ''page-3''),
        csvLine_scanner (sample_attestation_scanner ''page-4'')]
   \<and> json_entries (files (fold persist_scanner
               [sample_attestation_scanner ''page-3'', sample_attestation_scanner ''page-4'']
               (initializeFiles_scanner sample_world)) JSON_FILE) = 2
   \<and> list_all no_line_feed_part000 [sample_attestation_part000 ''page-3'']
   \<and> rows (files (fold persist_part000 [sample_attestation_part000 ''page-3'']
               (initializeFiles_part000 sample_world)) CSV_FILE) =
       [csv_header_part000, csvLine_part000 (sample_attestation_part000 ''page-3'')]
   \<and> json_entries (files (fold persist_part000 [sample_attestation_part000 ''page-3'']
               (initializeFiles_part000 sample_world)) JSON_FILE) = 1"
  using C5_rows_and_entries
    [of "[sample_attestation_scanner ''page-3'', sample_attestation_scanner ''page-4'']"
        sample_world "[sample_attestation_part000 ''page-3'']"]
    sample_no_line_feed
  by simp

section \<open>A run only appends\<close>

lemma appended_append: "appended path (ops @ ops') = appended path ops @ appended path ops'"
  by (simp add: appended_def)

lemma only_appended_refl: "only_appended w w []"
  by (simp add: only_appended_def appended_def)

lemma only_appended_trans:
  "only_appended w w' ops \<Longrightarrow> only_appended w' w'' ops' \<Longrightarrow> only_appended w w'' (ops @ ops')"
  by (simp add: only_appended_def appended_append)

lemma only_appended_emit: "only_appended w (emit e w) []"
  by (simp add: only_appended_def appended_def emit_def)

lemma only_appended_appendFileSync:
  "only_appended w (appendFileSync path content w) [AppendFile path content]"
  by (simp add: only_appended_def appended_def appendFileSync_def)

lemma only_appended_same_files:
  "files w' = files w \<Longrightarrow> fs_log w' = fs_log w \<Longrightarrow> only_appended w w' []"
  by (simp add: only_appended_def appended_def)

lemma assemble_scanner_files:
  "files (snd (assemble_scanner env txHash blockNumber w)) = files w
   \<and> fs_log (snd (assemble_scanner env txHash blockNumber w)) = fs_log w"
  by (auto simp: assemble_scanner_def Let_def emit_def new_Date_def
      split: sum.splits option.splits prod.splits if_splits)

lemma assemble_part000_files:
  "files (snd (assemble_part000 env txHash blockNumber w)) = files w
   \<and> fs_log (snd (assemble_part000 env txHash blockNumber w)) = fs_log w"
  by (auto simp: assemble_part000_def Let_def emit_def
      split: sum.splits option.splits prod.splits if_splits)

lemma decodeAttestation_scanner_appends:
  "\<exists>ops. only_appended w (decodeAttestation_scanner env txHash blockNumber w) ops"
proof (cases "assemble_scanner env txHash blockNumber w")
  case (Pair r w')
  then have same: "only_appended w w' []"
    using assemble_scanner_files [of env txHash blockNumber w]
    by (simp add: only_appended_same_files)
  show ?thesis
  proof (cases r)
    case None
    then show ?thesis
      using Pair same by (auto simp: decodeAttestation_scanner_def)
  next
    case (Some a)
    have "only_appended w' (emit (ConsoleLog ''New Attestation Found:'') w') []"
      by (rule only_appended_emit)
    from only_appended_trans [OF same this]
    have "only_appended w (emit (ConsoleLog ''New Attestation Found:'') w') []" by simp
    from only_appended_trans [OF this only_appended_appendFileSync]
    have "only_appended w (saveToJSON_scanner a (emit (ConsoleLog ''New Attestation Found:'') w'))
            [AppendFile JSON_FILE (JSON_stringify (json_of_scanner a) @ [LF])]"
      by (simp add: saveToJSON_scanner_def)
    from only_appended_trans [OF this only_appended_appendFileSync]
    have "\<exists>ops. only_appended w
            (saveToCSV_scanner a (saveToJSON_scanner a
               (emit (ConsoleLog ''New Attestation Found:'') w'))) ops"
      unfolding saveToCSV_scanner_def by blast
    then show ?thesis
      using Pair Some by (simp add: decodeAttestation_scanner_def persist_scanner_def)
  qed
qed

lemma decodeAttestation_part000_appends:
  "\<exists>ops. only_appended w (decodeAttestation_part000 env txHash blockNumber w) ops"
proof (cases "assemble_part000 env txHash blockNumber w")
  case (Pair r w')
  then have same: "only_appended w w' []"
    using assemble_part000_files [of env txHash blockNumber w]
    by (simp add: only_appended_same_files)
  show ?thesis
  proof (cases r)
    case None
    then show ?thesis
      using Pair same by (auto simp: decodeAttestation_part000_def)
  next
    case (Some a)
    have "only_appended w' (emit (ConsoleLog ''Attestation Found:'') w') []"
      by (rule only_appended_emit)
    from only_appended_trans [OF same this]
    have "only_appended w (emit (ConsoleLog ''Attestation Found:'') w') []" by simp
    from only_appended_trans [OF this only_appended_appendFileSync]
    have "only_appended w (saveToJSON_part000 a (emit (ConsoleLog ''Attestation Found:'') w'))
            [AppendFile JSON_FILE (JSON_stringify (json_of_part000 a) @ [LF])]"
      by (simp add: saveToJSON_part000_def)
    from only_appended_trans [OF this only_appended_appendFileSync]
    have "\<exists>ops. only_appended w
            (saveToCSV_part000 a (saveToJSON_part000 a
               (emit (ConsoleLog ''Attestation Found:'') w'))) ops"
      unfolding saveToCSV_part000_def by blast
    then show ?thesis
      using Pair Some by (simp add: decodeAttestation_part000_def persist_part000_def)
  qed
qed

lemma process_transactions_appends:
  assumes step: "\<And>txHash blockNumber w. \<exists>ops. only_appended w (decode env txHash blockNumber w) ops"
  shows "\<exists>ops. only_appended w (process_transactions decode env txs w) ops"
proof (induction txs arbitrary: w)
  case Nil
  show ?case using only_appended_refl by auto
next
  case (Cons tx txs)
  show ?case
  proof (cases "ex_to tx")
    case None
    then show ?thesis using only_appended_emit by auto
  next
    case (Some dest)
    show ?thesis
    proof (cases "toLowerCase dest = CONTRACT_ADDRESS env")
      case True
      obtain ops where a: "only_appended w (decode env (ex_hash tx) (parseInt (ex_blockNumber tx)) w) ops"
        using step by blast
      obtain ops' where "only_appended (decode env (ex_hash tx) (parseInt (ex_blockNumber tx)) w)
          (process_transactions decode env txs (decode env (ex_hash tx) (parseInt (ex_blockNumber tx)) w)) ops'"
        using Cons.IH by blast
      from only_appended_trans [OF a this] show ?thesis
        using Some True by auto
    next
      case False
      then show ?thesis using Some Cons.IH by auto
    qed
  qed
qed

lemma fetch_appends:
  assumes step: "\<And>txHash blockNumber w. \<exists>ops. only_appended w (decode env txHash blockNumber w) ops"
  shows "\<exists>ops. only_appended w (fetchTransactionsFromExplorer decode env w) ops"
proof -
  have a: "only_appended w (emit HttpGet w) []" by (rule only_appended_emit)
  have b: "\<And>e. only_appended (emit HttpGet w) (emit e (emit HttpGet w)) []"
    by (rule only_appended_emit)
  have c: "\<And>txs. \<exists>ops. only_appended (emit HttpGet w)
      (process_transactions decode env txs (emit HttpGet w)) ops"
    by (rule process_transactions_appends [of decode env]) (rule step)
  show ?thesis
  proof (cases "axios_get env")
    case (Inl e)
    then show ?thesis
      using only_appended_trans [OF a b] by (auto simp: fetchTransactionsFromExplorer_def Let_def)
  next
    case (Inr response)
    show ?thesis
    proof (cases "status response = ''1''")
      case True
      obtain ops where "only_appended (emit HttpGet w)
        (process_transactions decode env (result response) (emit HttpGet w)) ops"
        using c by blast
      from only_appended_trans [OF a this] show ?thesis
        using Inr True by (auto simp: fetchTransactionsFromExplorer_def Let_def)
    next
      case False
      then show ?thesis
        using Inr only_appended_trans [OF a b]
        by (auto simp: fetchTransactionsFromExplorer_def Let_def)
    qed
  qed
qed

lemma startup_log:
  assumes init: "w0 = writeFileSync CSV_FILE header (writeFileSync JSON_FILE [] w)"
    and run: "only_appended w0 w1 ops"
  shows "fs_log w1 = fs_log w @ [WriteFile JSON_FILE [], WriteFile CSV_FILE header] @ ops
         \<and> list_all is_append ops
         \<and> files w1 JSON_FILE = appended JSON_FILE ops
         \<and> files w1 CSV_FILE = header @ appended CSV_FILE ops"
  using assms JSON_CSV_distinct
  by (simp add: only_appended_def writeFileSync_def)

text \<open>
  C8. Whatever the files held, the initialisation leaves the structured artifact empty
  and the tabular artifact with the header row alone. The file operations of a whole
  run are the two writes of the initialisation followed by appends only, and at the end
  each artifact is its initial content followed by what was appended to it, in order.
  In both variants.
\<close>

theorem C8_initialise_then_append_only:
  "files (initializeFiles_scanner w) JSON_FILE = []
   \<and> rows (files (initializeFiles_scanner w) CSV_FILE) = [csv_header_scanner]
   \<and> (\<exists>ops. fs_log (startup_scanner env w) =
               fs_log w @ [WriteFile JSON_FILE [], WriteFile CSV_FILE (csv_header_scanner @ [LF])]
               @ ops
             \<and> list_all is_append ops
             \<and> files (startup_scanner env w) JSON_FILE = appended JSON_FILE ops
             \<and> files (startup_scanner env w) CSV_FILE =
                 (csv_header_scanner @ [LF]) @ appended CSV_FILE ops)
   \<and> files (initializeFiles_part000 w) JSON_FILE = []
   \<and> rows (files (initializeFiles_part000 w) CSV_FILE) = [csv_header_part000]
   \<and> (\<exists>ops. fs_log (startup_part000 env w) =
               fs_log w @ [WriteFile JSON_FILE [], WriteFile CSV_FILE (csv_header_part000 @ [LF])]
               @ ops
             \<and> list_all is_append ops
             \<and> files (startup_part000 env w) JSON_FILE = appended JSON_FILE ops
             \<and> files (startup_part000 env w) CSV_FILE =
                 (csv_header_part000 @ [LF]) @ appended CSV_FILE ops)"
proof -
  obtain ops where a: "only_appended (initializeFiles_scanner w) (startup_scanner env w) ops"
    using fetch_appends [of decodeAttestation_scanner env "initializeFiles_scanner w"]
      decodeAttestation_scanner_appends
    unfolding startup_scanner_def by blast
  obtain ops' where b: "only_appended (initializeFiles_part000 w) (startup_part000 env w) ops'"
    using fetch_appends [of decodeAttestation_part000 env "initializeFiles_part000 w"]
      decodeAttestation_part000_appends
    unfolding startup_part000_def by blast
  have r1: "rows (csv_header_scanner @ LF # []) = csv_header_scanner # rows []"
    by (rule rows_line) (rule header_no_LF)
  have r2: "rows (csv_header_part000 @ LF # []) = csv_header_part000 # rows []"
    by (rule rows_line) (rule header_no_LF)
  show ?thesis
    using startup_log [OF initializeFiles_scanner_def a]
      startup_log [OF initializeFiles_part000_def b] r1 r2
    by (simp add: files_initializeFiles_scanner files_initializeFiles_part000 rows_empty)
qed

section \<open>The timestamp of a record\<close>

lemma assemble_scanner_timestamp:
  "assemble_scanner env txHash blockNumber w = (Some a, w') \<Longrightarrow>
   toISOString (Num (clock env (date_reads w))) = Inr (a_timestamp a)"
  by (auto simp: assemble_scanner_def Let_def emit_def new_Date_def
      split: sum.splits option.splits prod.splits if_splits)

lemma assemble_part000_timestamp:
  "assemble_part000 env txHash blockNumber w = (Some a, w') \<Longrightarrow>
   \<exists>block. getBlock env blockNumber = Inr (Some block)
      \<and> toISOString (times_1000 (block_timestamp block)) = Inr (b_timestamp a)"
  by (auto simp: assemble_part000_def Let_def emit_def
      split: sum.splits option.splits prod.splits if_splits)

lemma assemble_scanner_timestamp_fst:
  "fst (assemble_scanner env txHash blockNumber w) = Some a \<Longrightarrow>
   toISOString (Num (clock env (date_reads w))) = Inr (a_timestamp a)"
  using assemble_scanner_timestamp [of env txHash blockNumber w a]
  by (cases "assemble_scanner env txHash blockNumber w") simp

lemma assemble_part000_timestamp_fst:
  "fst (assemble_part000 env txHash blockNumber w) = Some b \<Longrightarrow>
   \<exists>block. getBlock env blockNumber = Inr (Some block)
      \<and> toISOString (times_1000 (block_timestamp block)) = Inr (b_timestamp b)"
  using assemble_part000_timestamp [of env txHash blockNumber w b]
  by (cases "assemble_part000 env txHash blockNumber w") simp

text \<open>
  C9. The timestamp of a record assembled by \<^verbatim>\<open>src/attestation-scanner.js\<close> is the
  reading of the wall clock at the decode; the timestamp of a record assembled by
  \<^verbatim>\<open>src/unnamed/part_000\<close> is the timestamp of the block that the provider returns for
  the block number, in milliseconds; and there is an outside and a transaction from
  which both variants assemble a record, with different timestamps.
\<close>

theorem C9_timestamp_sources_differ:
  "(fst (assemble_scanner env txHash blockNumber w) = Some a \<longrightarrow>
      toISOString (Num (clock env (date_reads w))) = Inr (a_timestamp a))
   \<and> (fst (assemble_part000 env txHash blockNumber w) = Some b \<longrightarrow>
      (\<exists>block. getBlock env blockNumber = Inr (Some block)
         \<and> toISOString (times_1000 (block_timestamp block)) = Inr (b_timestamp b)))
   \<and> (\<exists>env' txHash' blockNumber' w' a' b'.
        fst (assemble_scanner env' txHash' blockNumber' w') = Some a'
        \<and> fst (assemble_part000 env' txHash' blockNumber' w') = Some b'
        \<and> a_timestamp a' \<noteq> b_timestamp b')"
proof (intro conjI impI)
  assume "fst (assemble_scanner env txHash blockNumber w) = Some a"
  then show "toISOString (Num (clock env (date_reads w))) = Inr (a_timestamp a)"
    by (rule assemble_scanner_timestamp_fst)
next
  assume "fst (assemble_part000 env txHash blockNumber w) = Some b"
  then show "\<exists>block. getBlock env blockNumber = Inr (Some block)
         \<and> toISOString (times_1000 (block_timestamp block)) = Inr (b_timestamp b)"
    by (rule assemble_part000_timestamp_fst)
next
  show "\<exists>env' txHash' blockNumber' w' a' b'.
        fst (assemble_scanner env' txHash' blockNumber' w') = Some a'
        \<and> fst (assemble_part000 env' txHash' blockNumber' w') = Some b'
        \<and> a_timestamp a' \<noteq> b_timestamp b'"
    using negative_both timestamps_differ by blast
qed

text \<open>
  C9 at a concrete input: a transaction that both variants decode (a false flag, so that
  the three-parameter encoding is read alike under the tuple schema), decoded 123
  milliseconds after the time of its block.
\<close>

theorem C9_witness:
  "fst (assemble_scanner (sample_env sample_dest (hexlify spec_address) (hexlify negative_params))
          ''0xabc'' (Num 12345) sample_world)
     = Some ((sample_attestation_scanner ''page-3'')\<lparr>a_isPositive := False\<rparr>)
   \<and> toISOString (Num (clock (sample_env sample_dest (hexlify spec_address)
                                  (hexlify negative_params)) (date_reads sample_world)))
     = Inr ''2023-11-14T22:13:20.123Z''
   \<and> fst (assemble_part000 (sample_env sample_dest (hexlify spec_address) (hexlify negative_params))
          ''0xabc'' (Num 12345) sample_world)
     = Some ((sample_attestation_part000 ''page-3'')
               \<lparr>b_positiveFeedback := Num 0, b_negativeFeedback := Num 1\<rparr>)
   \<and> (\<exists>block. getBlock (sample_env sample_dest (hexlify spec_address) (hexlify negative_params))
                  (Num 12345) = Inr (Some block)
         \<and> toISOString (times_1000 (block_timestamp block)) = Inr ''2023-11-14T22:13:20.000Z'')"
  using C9_timestamp_sources_differ
    [of "sample_env sample_dest (hexlify spec_address) (hexlify negative_params)" "''0xabc''"
        "Num 12345" sample_world
        "(sample_attestation_scanner ''page-3'')\<lparr>a_isPositive := False\<rparr>"
        "(sample_attestation_part000 ''page-3'')
           \<lparr>b_positiveFeedback := Num 0, b_negativeFeedback := Num 1\<rparr>"]
    negative_both
  by (simp add: sample_attestation_scanner_def sample_attestation_part000_def)

end
